theory Spec2Isabelle
  imports Main
begin

section \<open>Bytes, C strings and fixed buffers\<close>

text \<open>
  A buffer is the list of its bytes. A C string is read from a buffer up to the first NUL
  byte; a buffer that holds no NUL makes the reader run off the array, which is
  undefined behaviour in C and \<open>None\<close> here.
\<close>

abbreviation NUL :: char where "NUL \<equiv> CHR 0x00"
abbreviation NL :: char where "NL \<equiv> CHR 0x0A"
abbreviation DQ :: char where "DQ \<equiv> CHR 0x22"
abbreviation BSL :: char where "BSL \<equiv> CHR 0x5C"

definition MAX_RESPONSE :: nat where "MAX_RESPONSE = 4096"
definition MAX_INPUT :: nat where "MAX_INPUT = 1024"

definition INT_MIN :: int where "INT_MIN = - 2147483648"
definition INT_MAX :: int where "INT_MAX = 2147483647"

definition in_int :: "int \<Rightarrow> bool" where
  "in_int v = (INT_MIN \<le> v \<and> v \<le> INT_MAX)"

definition LONG_MIN :: int where "LONG_MIN = - 9223372036854775808"
definition LONG_MAX :: int where "LONG_MAX = 9223372036854775807"

definition clamp_long :: "int \<Rightarrow> int" where
  \<comment> \<open>\<open>strtol\<close> on a numeral of value v: the value, or the nearest long\<close>
  "clamp_long v = max LONG_MIN (min LONG_MAX v)"

definition int_cast :: "int \<Rightarrow> int" where
  \<comment> \<open>\<open>(int)\<close> of a long: its low 32 bits, read as a signed number\<close>
  "int_cast v = (v + 2147483648) mod 4294967296 - 2147483648"

definition store_d :: "int \<Rightarrow> int" where
  \<comment> \<open>what \<open>scanf("%d", &x)\<close> leaves in the int x for a numeral of value v\<close>
  "store_d v = int_cast (clamp_long v)"

definition cstr :: "string \<Rightarrow> string option" where
  "cstr buf = (if NUL \<in> set buf then Some (takeWhile (\<lambda>c. c \<noteq> NUL) buf) else None)"

definition poke :: "string \<Rightarrow> string \<Rightarrow> string" where
  \<comment> \<open>overwrite the first bytes of a buffer, the rest stays as it was\<close>
  "poke bs buf = bs @ drop (length bs) buf"

definition strncpy :: "string \<Rightarrow> string \<Rightarrow> nat \<Rightarrow> string" where
  \<comment> \<open>exactly n bytes are written: the source up to its NUL, then NUL padding\<close>
  "strncpy dst src n =
     (let s = takeWhile (\<lambda>c. c \<noteq> NUL) src
      in poke (take n s @ replicate (n - length s) NUL) dst)"

definition snprintf :: "string \<Rightarrow> nat \<Rightarrow> string \<Rightarrow> string" where
  \<comment> \<open>the formatted text is cut to n - 1 bytes and NUL-terminated\<close>
  "snprintf buf n txt = poke (take (n - 1) txt @ [NUL]) buf"

definition strcspn_nl :: "string \<Rightarrow> nat option" where
  \<comment> \<open>\<open>strcspn(buf, "\n")\<close>: index of the first newline or of the terminating NUL\<close>
  "strcspn_nl buf =
     (let k = length (takeWhile (\<lambda>c. c \<noteq> NUL \<and> c \<noteq> NL) buf)
      in if k < length buf then Some k else None)"

fun digits :: "nat \<Rightarrow> string" where
  "digits n = (if n < 10 then [''0123456789'' ! n]
               else digits (n div 10) @ [''0123456789'' ! (n mod 10)])"

declare digits.simps [simp del]

definition fmt_d :: "int \<Rightarrow> string" where
  \<comment> \<open>the conversion \<open>%d\<close>\<close>
  "fmt_d i = (if i < 0 then CHR ''-'' # digits (nat (- i)) else digits (nat i))"

section \<open>Standard input\<close>

text \<open>
  Standard input is the list of bytes not yet read; the empty list is end of file.
  \<open>scanf("%d")\<close> skips white space, takes an optional sign and the longest run of
  decimal digits, and leaves the first byte after them unread. Without a digit nothing is
  stored: at end of file it returns \<open>EOF\<close>, otherwise 0 (the white space and the sign stay
  consumed). With digits it returns 1; \<open>ScanInt\<close> carries the value of the numeral
  read. C leaves the store undefined when that value does not fit an int; the C library
  of the program's target (glibc, 64-bit long) converts with \<open>strtol\<close>, which clamps
  to long, and stores the result cast to int: that is \<open>store_d\<close>, and the program goes
  on with the value stored.
\<close>

definition isspace :: "char \<Rightarrow> bool" where
  "isspace c = (c \<in> set [CHR '' '', CHR 0x09, NL, CHR 0x0B, CHR 0x0C, CHR 0x0D])"

definition isdigit :: "char \<Rightarrow> bool" where
  "isdigit c = (c \<in> set ''0123456789'')"

definition digit_val :: "char \<Rightarrow> int" where
  "digit_val c = of_char c - 48"

definition decimal :: "string \<Rightarrow> int" where
  "decimal ds = foldl (\<lambda>a c. 10 * a + digit_val c) 0 ds"

datatype scan = ScanEOF string | ScanFail string | ScanInt int string

definition scanf_d :: "string \<Rightarrow> scan" where
  "scanf_d inp =
     (case dropWhile isspace inp of
        [] \<Rightarrow> ScanEOF []
      | c # cs \<Rightarrow>
          (let r1 = (if c = CHR ''-'' \<or> c = CHR ''+'' then cs else c # cs);
               ds = takeWhile isdigit r1
           in if ds = [] then ScanFail r1
              else ScanInt (if c = CHR ''-'' then - decimal ds else decimal ds)
                     (dropWhile isdigit r1)))"

fun scanf_ret :: "scan \<Rightarrow> int" where
  "scanf_ret (ScanEOF _) = - 1"
| "scanf_ret (ScanFail _) = 0"
| "scanf_ret (ScanInt _ _) = 1"

fun scan_rest :: "scan \<Rightarrow> string" where
  "scan_rest (ScanEOF r) = r"
| "scan_rest (ScanFail r) = r"
| "scan_rest (ScanInt _ r) = r"

definition getchar :: "string \<Rightarrow> string" where
  \<comment> \<open>the byte read is thrown away by the callers\<close>
  "getchar inp = drop 1 inp"

definition fgets :: "string \<Rightarrow> nat \<Rightarrow> string \<Rightarrow> bool \<times> string \<times> string" where
  \<comment> \<open>at most n - 1 bytes, up to and with the newline; at end of file the buffer is untouched\<close>
  "fgets buf n inp =
     (let line = takeWhile (\<lambda>c. c \<noteq> NL) inp;
          upto = (if length line < length inp then line @ [NL] else line);
          got = take (n - 1) upto
      in if got = [] then (False, buf, inp)
         else (True, poke (got @ [NUL]) buf, drop (length got) inp))"

section \<open>JSON values as json-c holds and prints them\<close>

text \<open>
  json-c represents JSON null by the NULL pointer, which is also what
  \<open>json_tokener_parse\<close> returns for text it rejects. A double made by the tokener is
  printed as the text it was read from. \<open>json_object_to_json_string\<close> is the library's
  default format \<open>JSON_C_TO_STRING_SPACED\<close>: a blank after each opening and before
  each closing bracket, after each comma and after each colon, and \<open>/\<close> written as
  \<open>\/\<close>.
\<close>

datatype json =
    JNull
  | JBool bool
  | JInt int
  | JDouble string
  | JString string
  | JArray "json list"
  | JObject "(string \<times> json) list"

definition json_escape_char :: "char \<Rightarrow> string" where
  "json_escape_char c =
     (if c = CHR 0x08 then [BSL, CHR ''b'']
      else if c = NL then [BSL, CHR ''n'']
      else if c = CHR 0x0D then [BSL, CHR ''r'']
      else if c = CHR 0x09 then [BSL, CHR ''t'']
      else if c = CHR 0x0C then [BSL, CHR ''f'']
      else if c = DQ then [BSL, DQ]
      else if c = BSL then [BSL, BSL]
      else if c = CHR ''/'' then [BSL, CHR ''/'']
      else if (of_char c :: nat) < 32
        then [BSL, CHR ''u'', CHR ''0'', CHR ''0'',
              ''0123456789abcdef'' ! (of_char c div 16),
              ''0123456789abcdef'' ! (of_char c mod 16)]
      else [c])"

definition json_escape_str :: "string \<Rightarrow> string" where
  "json_escape_str s = concat (map json_escape_char s)"

fun commas :: "string list \<Rightarrow> string" where
  "commas [] = []"
| "commas [x] = CHR '' '' # x"
| "commas (x # xs) = CHR '' '' # x @ CHR '','' # commas xs"

fun json_object_to_json_string :: "json \<Rightarrow> string" where
  "json_object_to_json_string JNull = ''null''"
| "json_object_to_json_string (JBool b) = (if b then ''true'' else ''false'')"
| "json_object_to_json_string (JInt i) = fmt_d i"
| "json_object_to_json_string (JDouble t) = t"
| "json_object_to_json_string (JString s) = DQ # json_escape_str s @ [DQ]"
| "json_object_to_json_string (JArray xs) =
     CHR ''['' # commas (map json_object_to_json_string xs) @ '' ]''"
| "json_object_to_json_string (JObject kvs) =
     CHR ''{'' # commas (map (\<lambda>kv. DQ # json_escape_str (fst kv) @ [DQ] @ '': ''
                                    @ json_object_to_json_string (snd kv)) kvs) @ '' }''"

definition json_object_object_add :: "(string \<times> json) list \<Rightarrow> string \<Rightarrow> json \<Rightarrow> (string \<times> json) list" where
  \<comment> \<open>a key already present keeps its place and takes the new value; a new key goes last\<close>
  "json_object_object_add kvs k v =
     (if k \<in> fst ` set kvs then map (\<lambda>kv. if fst kv = k then (k, v) else kv) kvs
      else kvs @ [(k, v)])"

section \<open>The RPC client (main.c)\<close>

text \<open>
  What the program cannot decide is the environment of one call: whether
  \<open>curl_easy_init\<close> yields a handle, whether \<open>realloc\<close> grants a block of a given
  size, what \<open>json_tokener_parse\<close> makes of a text, and how the transfer goes: the
  pieces of the response body handed to the write callback, in order, and the code
  \<open>curl_easy_perform\<close> ends with when the callback takes them all.
\<close>

type_synonym addr = nat
type_synonym memory = "addr \<Rightarrow> string"

record http_request =
  url :: string
  postfields :: string
  httpheader :: "string list"

record Response =
  data :: "string option"
  size_r :: nat

record env =
  curl_easy_init_ok :: bool
  realloc_ok :: "nat \<Rightarrow> bool"
  json_tokener_parse :: "string \<Rightarrow> json"
  transfer :: "http_request \<Rightarrow> string list \<times> nat"

definition CURLE_OK :: nat where "CURLE_OK = 0"
definition CURLE_COULDNT_CONNECT :: nat where "CURLE_COULDNT_CONNECT = 7"
definition CURLE_WRITE_ERROR :: nat where "CURLE_WRITE_ERROR = 23"

definition WriteCallback :: "env \<Rightarrow> string \<Rightarrow> nat \<Rightarrow> nat \<Rightarrow> Response \<Rightarrow> Response \<times> nat" where
  "WriteCallback e contents sz nmemb response =
     (let realsize = sz * nmemb in
      if \<not> realloc_ok e (size_r response + realsize + 1) then (response, 0)
      else
        (let old = (case data response of None \<Rightarrow> [] | Some d \<Rightarrow> d)
         in (\<lparr>data = Some (take (size_r response) old @ take realsize contents @ [NUL]),
              size_r = size_r response + realsize\<rparr>, realsize)))"

fun deliver :: "env \<Rightarrow> string list \<Rightarrow> Response \<Rightarrow> Response \<times> bool" where
  "deliver e [] r = (r, True)"
| "deliver e (c # cs) r =
     (case WriteCallback e c 1 (length c) r of
        (r', n) \<Rightarrow> if n = length c then deliver e cs r' else (r', False))"

definition curl_easy_perform :: "env \<Rightarrow> http_request \<Rightarrow> Response \<Rightarrow> Response \<times> nat" where
  \<comment> \<open>a callback that returns another count than it was given aborts the transfer\<close>
  "curl_easy_perform e req r =
     (case transfer e req of
        (chunks, code) \<Rightarrow>
          (case deliver e chunks r of
             (r', taken) \<Rightarrow> (r', if taken then code else CURLE_WRITE_ERROR)))"

text \<open>
  A \<open>const char *\<close> argument points either to a string literal or to a buffer of the
  caller; only a buffer can be the output buffer as well.
\<close>

datatype ptr = Lit string | Buf addr

fun deref :: "memory \<Rightarrow> ptr \<Rightarrow> string option" where
  "deref m (Lit s) = cstr (s @ [NUL])"
| "deref m (Buf a) = cstr (m a)"

definition envelope :: "env \<Rightarrow> string \<Rightarrow> string \<Rightarrow> json" where
  "envelope e tool args =
     (let jsonrpc = JString ''2.0'';
          method = JString ''tools/call'';
          ident = JInt 1;
          name = JString tool;
          arguments = json_tokener_parse e args;
          params = json_object_object_add [] ''name'' name;
          params = json_object_object_add params ''arguments'' arguments;
          request = json_object_object_add [] ''jsonrpc'' jsonrpc;
          request = json_object_object_add request ''method'' method;
          request = json_object_object_add request ''id'' ident;
          request = json_object_object_add request ''params'' (JObject params)
      in JObject request)"

definition post :: "env \<Rightarrow> string \<Rightarrow> string \<Rightarrow> http_request" where
  \<comment> \<open>setting \<open>CURLOPT_POSTFIELDS\<close> makes the request a POST with that body\<close>
  "post e tool args =
     \<lparr>url = ''http://localhost:8080/mcp'',
      postfields = json_object_to_json_string (envelope e tool args),
      httpheader = [''Content-Type: application/json'']\<rparr>"

datatype call = CallUndefined | Return int memory "http_request list"

definition call_mcp_tool :: "env \<Rightarrow> string \<Rightarrow> ptr \<Rightarrow> addr \<Rightarrow> memory \<Rightarrow> call" where
  \<comment> \<open>returns the value, the memory and the requests performed (none or one)\<close>
  "call_mcp_tool e tool args result m =
     (if \<not> curl_easy_init_ok e then Return (- 1) m []
      else
        (case deref m args of
           None \<Rightarrow> CallUndefined
         | Some a \<Rightarrow>
             (let req = post e tool a;
                  (response, res) = curl_easy_perform e req \<lparr>data = None, size_r = 0\<rparr>
              in if res = CURLE_OK \<and> data response \<noteq> None
                 then
                   (if length (m result) < MAX_RESPONSE then CallUndefined
                    else Return 0
                           (m(result := (strncpy (m result) (the (data response))
                                            (MAX_RESPONSE - 1))[MAX_RESPONSE - 1 := NUL]))
                           [req])
                 else Return (if res = CURLE_OK then 0 else - 1) m [req])))"

section \<open>The process and one pass of the menu loop\<close>

text \<open>
  The state of the process: the unread standard input, everything printed so far, the
  HTTP requests performed so far, the two arrays of \<open>main\<close> (\<open>input\<close> and \<open>result\<close>,
  with whatever bytes the stack held at the start) and the variable \<open>choice\<close>.
\<close>

record state =
  stdin :: string
  stdout :: string
  sent :: "http_request list"
  mem :: memory
  choice :: int

definition INPUT :: addr where "INPUT = 0"
definition RESULT :: addr where "RESULT = 1"

datatype outcome = Continue state | Exit int state | Undefined

definition printf :: "state \<Rightarrow> string \<Rightarrow> state" where
  "printf s txt = s\<lparr>stdout := stdout s @ txt\<rparr>"

definition menu :: string where
  "menu = ''\<newline>=== Phase 3 Control Panel ===\<newline>'' @
          ''1. Generate Text\<newline>'' @
          ''2. System Status\<newline>'' @
          ''3. Start Frontend\<newline>'' @
          ''4. Debug Mode\<newline>'' @
          ''5. Agent Config\<newline>'' @
          ''6. Database Management\<newline>'' @
          ''7. Settings\<newline>'' @
          ''8. Exit\<newline>'' @
          ''Choice: ''"

definition print_menu :: "state \<Rightarrow> state" where
  "print_menu s = printf s menu"

definition read_prompt :: "state \<Rightarrow> state option" where
  \<comment> \<open>\<open>getchar(); fgets(input, sizeof(input), stdin); input[strcspn(input, "\n")] = 0;\<close>\<close>
  "read_prompt s =
     (let inp = getchar (stdin s);
          (got, buf, rest) = fgets (mem s INPUT) MAX_INPUT inp
      in case strcspn_nl buf of
           None \<Rightarrow> None
         | Some k \<Rightarrow> Some (s\<lparr>stdin := rest, mem := (mem s)(INPUT := buf[k := NUL])\<rparr>))"

definition read_level :: "state \<Rightarrow> state" where
  \<comment> \<open>\<open>scanf("%d", &choice)\<close> with the result ignored\<close>
  "read_level s =
     (case scanf_d (stdin s) of
        ScanInt n rest \<Rightarrow> s\<lparr>stdin := rest, choice := store_d n\<rparr>
      | ScanFail rest \<Rightarrow> s\<lparr>stdin := rest\<rparr>
      | ScanEOF rest \<Rightarrow> s\<lparr>stdin := rest\<rparr>)"

definition format_result :: "state \<Rightarrow> string \<Rightarrow> state" where
  \<comment> \<open>\<open>snprintf(result, sizeof(result), ...)\<close> with the text already formatted\<close>
  "format_result s txt = s\<lparr>mem := (mem s)(RESULT := snprintf (mem s RESULT) MAX_RESPONSE txt)\<rparr>"

definition rpc :: "env \<Rightarrow> state \<Rightarrow> string \<Rightarrow> ptr \<Rightarrow> string \<Rightarrow> string option \<Rightarrow> outcome" where
  \<comment> \<open>\<open>if (call_mcp_tool(tool, args, result) == 0) printf(label "%s\n", result); else printf(err);\<close>,
      the else branch only where the source has one\<close>
  "rpc e s tool args label err =
     (case call_mcp_tool e tool args RESULT (mem s) of
        CallUndefined \<Rightarrow> Undefined
      | Return rc m reqs \<Rightarrow>
          (let s' = s\<lparr>mem := m, sent := sent s @ reqs\<rparr>
           in if rc = 0
              then (case cstr (m RESULT) of
                      None \<Rightarrow> Undefined
                    | Some r \<Rightarrow> Continue (printf s' (label @ r @ [NL])))
              else (case err of
                      None \<Rightarrow> Continue s'
                    | Some msg \<Rightarrow> Continue (printf s' msg))))"

definition main_iter :: "env \<Rightarrow> state \<Rightarrow> outcome" where
  "main_iter e s0 =
     (let s = print_menu s0; sc = scanf_d (stdin s) in
      if scanf_ret sc \<noteq> 1 then Continue (printf (s\<lparr>stdin := scan_rest sc\<rparr>) ''Invalid input\<newline>'')
      else
        (case sc of
           ScanInt n rest \<Rightarrow>
               (let v = store_d n; s = s\<lparr>stdin := rest, choice := v\<rparr> in
                if v = 1 then
                  (case read_prompt (printf s ''Enter prompt: '') of
                     None \<Rightarrow> Undefined
                   | Some s \<Rightarrow>
                       (case cstr (mem s INPUT) of
                          None \<Rightarrow> Undefined
                        | Some p \<Rightarrow>
                            rpc e (format_result s (''{'' @ [DQ] @ ''prompt'' @ [DQ] @ '':'' @ [DQ] @ p @ [DQ] @ ''}''))
                              ''generate'' (Buf RESULT) ''Result: ''
                              (Some ''Error calling generate tool\<newline>'')))
                else if v = 2 then
                  rpc e s ''get_status'' (Lit ''{}'') ''Status: '' (Some ''Error getting status\<newline>'')
                else if v = 3 then
                  rpc e s ''start_frontend'' (Lit ''{}'') ''Frontend: '' (Some ''Error starting frontend\<newline>'')
                else if v = 4 then
                  (let s = read_level (printf s ''Debug level (0-3): '')
                   in rpc e (format_result s (''{'' @ [DQ] @ ''level'' @ [DQ] @ '':'' @ fmt_d (choice s) @ ''}''))
                        ''set_debug'' (Buf RESULT) ''Debug: '' None)
                else if v = 5 then rpc e s ''get_agent_config'' (Lit ''{}'') ''Config: '' None
                else if v = 6 then rpc e s ''db_status'' (Lit ''{}'') ''Database: '' None
                else if v = 7 then rpc e s ''get_settings'' (Lit ''{}'') ''Settings: '' None
                else if v = 8 then Exit 0 (printf s ''Goodbye!\<newline>'')
                else Continue (printf s ''Invalid choice\<newline>''))
         | _ \<Rightarrow> Undefined))"

section \<open>The mock variant (main_simple.c)\<close>

abbreviation SQ :: char where "SQ \<equiv> CHR 0x27"

definition mock_status :: string where
  "mock_status =
     ''Status: {\<newline>'' @
     ''  '' @ [DQ] @ ''status'' @ [DQ] @ '': '' @ [DQ] @ ''healthy'' @ [DQ] @ '',\<newline>'' @
     ''  '' @ [DQ] @ ''server'' @ [DQ] @ '': '' @ [DQ] @ ''phase3-admin'' @ [DQ] @ '',\<newline>'' @
     ''  '' @ [DQ] @ ''version'' @ [DQ] @ '': '' @ [DQ] @ ''1.0.0'' @ [DQ] @ '',\<newline>'' @
     ''  '' @ [DQ] @ ''frontend_running'' @ [DQ] @ '': true\<newline>'' @
     ''}\<newline>''"

definition mock_config :: string where
  "mock_config =
     ''Config: {\<newline>'' @
     ''  '' @ [DQ] @ ''model'' @ [DQ] @ '': '' @ [DQ] @ ''gpt-4'' @ [DQ] @ '',\<newline>'' @
     ''  '' @ [DQ] @ ''temperature'' @ [DQ] @ '': 0.7,\<newline>'' @
     ''  '' @ [DQ] @ ''max_tokens'' @ [DQ] @ '': 1000\<newline>'' @
     ''}\<newline>''"

definition mock_database :: string where
  "mock_database =
     ''Database: {\<newline>'' @
     ''  '' @ [DQ] @ ''connected'' @ [DQ] @ '': true,\<newline>'' @
     ''  '' @ [DQ] @ ''sessions'' @ [DQ] @ '': 0,\<newline>'' @
     ''  '' @ [DQ] @ ''settings'' @ [DQ] @ '': 3\<newline>'' @
     ''}\<newline>''"

definition mock_settings :: string where
  "mock_settings =
     ''Settings: {\<newline>'' @
     ''  '' @ [DQ] @ ''debug_level'' @ [DQ] @ '': 1,\<newline>'' @
     ''  '' @ [DQ] @ ''frontend_port'' @ [DQ] @ '': 8080,\<newline>'' @
     ''  '' @ [DQ] @ ''agent_model'' @ [DQ] @ '': '' @ [DQ] @ ''gpt-4'' @ [DQ] @ ''\<newline>'' @
     ''}\<newline>''"

definition main_simple_iter :: "state \<Rightarrow> outcome" where
  "main_simple_iter s0 =
     (let s = print_menu s0; sc = scanf_d (stdin s) in
      if scanf_ret sc \<noteq> 1 then Continue (printf (s\<lparr>stdin := scan_rest sc\<rparr>) ''Invalid input\<newline>'')
      else
        (case sc of
           ScanInt n rest \<Rightarrow>
               (let v = store_d n; s = s\<lparr>stdin := rest, choice := v\<rparr> in
                if v = 1 then
                  (case read_prompt (printf s ''Enter prompt: '') of
                     None \<Rightarrow> Undefined
                   | Some s \<Rightarrow>
                       (case cstr (mem s INPUT) of
                          None \<Rightarrow> Undefined
                        | Some p \<Rightarrow>
                            Continue (printf s (''Generated: Mock text for '' @ [SQ] @ p @ [SQ, NL]))))
                else if v = 2 then Continue (printf s mock_status)
                else if v = 3 then Continue (printf s ''Frontend: Started on port 8080\<newline>'')
                else if v = 4 then
                  (let s = read_level (printf s ''Debug level (0-3): '')
                   in Continue (printf s (''Debug: Level set to '' @ fmt_d (choice s) @ [NL])))
                else if v = 5 then Continue (printf s mock_config)
                else if v = 6 then Continue (printf s mock_database)
                else if v = 7 then Continue (printf s mock_settings)
                else if v = 8 then Exit 0 (printf s ''Goodbye!\<newline>'')
                else Continue (printf s ''Invalid choice\<newline>''))
         | _ \<Rightarrow> Undefined))"

definition mock_texts :: "string \<Rightarrow> int \<Rightarrow> string list" where
  \<comment> \<open>what a pass of the mock variant can print after the menu: the literals of the
      source, two of them around the string held in \<open>input\<close> and the value of \<open>choice\<close>\<close>
  "mock_texts p lvl =
     [''Invalid input\<newline>'',
      ''Enter prompt: '' @ ''Generated: Mock text for '' @ [SQ] @ p @ [SQ, NL],
      mock_status,
      ''Frontend: Started on port 8080\<newline>'',
      ''Debug level (0-3): '' @ ''Debug: Level set to '' @ fmt_d lvl @ [NL],
      mock_config,
      mock_database,
      mock_settings,
      ''Goodbye!\<newline>'',
      ''Invalid choice\<newline>'']"

section \<open>The loops\<close>


fun main_simple_loop :: "nat \<Rightarrow> state \<Rightarrow> outcome" where
  "main_simple_loop 0 s = Continue s"
| "main_simple_loop (Suc n) s =
     (case main_simple_iter s of
        Continue s' \<Rightarrow> main_simple_loop n s'
      | Exit c s' \<Rightarrow> Exit c s'
      | Undefined \<Rightarrow> Undefined)"



section \<open>Environments and processes used as examples\<close>

text \<open>
  \<open>server chunks\<close> is a reachable server that answers every request with the given pieces
  of body; \<open>unreachable\<close> refuses the connection. In both the tokener knows the empty
  object and rejects every other text. \<open>process inp old\<close> is the process at the start of
  a pass, with \<open>inp\<close> on standard input and the string \<open>old\<close> left in \<open>result\<close>.
\<close>

definition server :: "string list \<Rightarrow> env" where
  "server chunks =
     \<lparr>curl_easy_init_ok = True,
      realloc_ok = (\<lambda>n. True),
      json_tokener_parse = (\<lambda>t. if t = ''{}'' then JObject [] else JNull),
      transfer = (\<lambda>req. (chunks, CURLE_OK))\<rparr>"

definition unreachable :: env where
  "unreachable =
     \<lparr>curl_easy_init_ok = True,
      realloc_ok = (\<lambda>n. True),
      json_tokener_parse = (\<lambda>t. if t = ''{}'' then JObject [] else JNull),
      transfer = (\<lambda>req. ([], CURLE_COULDNT_CONNECT))\<rparr>"

definition process :: "string \<Rightarrow> string \<Rightarrow> state" where
  "process inp old =
     \<lparr>stdin = inp, stdout = [], sent = [],
      mem = (\<lambda>a. if a = INPUT then replicate MAX_INPUT NUL
                  else old @ replicate (MAX_RESPONSE - length old) NUL),
      choice = 0\<rparr>"

section \<open>Buffers that hold strings\<close>

text \<open>
  The two arrays of \<open>main\<close> start with whatever the stack holds. \<open>input_ok\<close> says
  that \<open>input\<close> has its 1024 bytes and a NUL among them, \<open>buffers_ok\<close> that
  \<open>result\<close> has its 4096 bytes and a NUL as well: then no pass reads past an array.
\<close>

definition input_ok :: "state \<Rightarrow> bool" where
  "input_ok s = (length (mem s INPUT) = MAX_INPUT \<and> NUL \<in> set (mem s INPUT))"

definition buffers_ok :: "state \<Rightarrow> bool" where
  "buffers_ok s =
     (input_ok s \<and> length (mem s RESULT) = MAX_RESPONSE \<and> NUL \<in> set (mem s RESULT))"

section \<open>Basic facts\<close>

lemma stdin_printf [simp]: "stdin (printf s t) = stdin s"
  and stdout_printf [simp]: "stdout (printf s t) = stdout s @ t"
  and sent_printf [simp]: "sent (printf s t) = sent s"
  and mem_printf [simp]: "mem (printf s t) = mem s"
  and choice_printf [simp]: "choice (printf s t) = choice s"
  by (simp_all add: printf_def)

lemmas int_range = in_int_def INT_MIN_def INT_MAX_def

lemmas store_defs = store_d_def clamp_long_def int_cast_def LONG_MIN_def LONG_MAX_def


lemma store_d_in_int: "in_int (store_d v)"
  by (simp add: store_defs int_range)

lemmas scan_defs = scanf_d_def isspace_def isdigit_def decimal_def digit_val_def

section \<open>The mock variant prints literals\<close>

text \<open>
  C7. In the mock variant, entering choice 5 prints, after the menu, exactly the literal
  block of the source: the line \<open>Config: {\<close>, the three lines of the fields
  \<open>"model": "gpt-4"\<close>, \<open>"temperature": 0.7\<close> and \<open>"max_tokens": 1000\<close>, and the
  closing brace; nothing else of the process changes but the input read and \<open>choice\<close>.
\<close>

theorem mock_choice_5_prints_config:
  assumes "scanf_d (stdin s) = ScanInt 5 rest"
  shows \<open>main_simple_iter s =
          Continue (s\<lparr>stdin := rest, choice := 5,
                     stdout := stdout s @ menu @
                       ''Config: {\<newline>  "model": "gpt-4",\<newline>  "temperature": 0.7,\<newline>  "max_tokens": 1000\<newline>}\<newline>''\<rparr>)\<close>
  using assms
  by (simp add: main_simple_iter_def print_menu_def printf_def int_range store_defs mock_config_def)

theorem mock_choice_5_prints_config_witness:
  \<open>scanf_d (stdin (process ''5\<newline>'' [])) = ScanInt 5 [NL] \<and>
   main_simple_iter (process ''5\<newline>'' []) =
     Continue ((process ''5\<newline>'' [])\<lparr>stdin := [NL], choice := 5,
        stdout := menu @
          ''Config: {\<newline>  "model": "gpt-4",\<newline>  "temperature": 0.7,\<newline>  "max_tokens": 1000\<newline>}\<newline>''\<rparr>)\<close>
proof -
  have h: "scanf_d (stdin (process ''5\<newline>'' [])) = ScanInt 5 [NL]"
    by (simp add: process_def scan_defs)
  show ?thesis
    using h mock_choice_5_prints_config [OF h] by (simp add: process_def)
qed

section \<open>Facts about the C library model\<close>


lemma strncpy_terminated:
  assumes "length dst = Suc n"
  shows "(strncpy dst src n)[n := NUL] =
           take n (takeWhile (\<lambda>c. c \<noteq> NUL) src)
           @ replicate (Suc n - length (take n (takeWhile (\<lambda>c. c \<noteq> NUL) src))) NUL"
proof -
  define s where "s = takeWhile (\<lambda>c. c \<noteq> NUL) src"
  define w where "w = take n s @ replicate (n - length s) NUL"
  have lw: "length w = n" by (simp add: w_def)
  have "strncpy dst src n = poke w dst"
    by (simp add: strncpy_def Let_def s_def w_def)
  then have "strncpy dst src n = w @ drop n dst"
    by (simp add: poke_def lw)
  moreover from assms obtain x where "drop n dst = [x]"
    by (cases "drop n dst") (auto simp: drop_eq_Nil dest: arg_cong [where f = length])
  ultimately have "(strncpy dst src n)[n := NUL] = w @ [NUL]"
    using lw by (simp add: list_update_append)
  also have "\<dots> = take n s @ replicate (Suc n - length (take n s)) NUL"
  proof -
    have "Suc n - length (take n s) = Suc (n - length s)" by auto
    then show ?thesis by (simp add: w_def replicate_append_same)
  qed
  finally show ?thesis by (simp add: s_def)
qed

lemma cstr_padded:
  assumes "NUL \<notin> set t" "0 < k"
  shows "cstr (t @ replicate k NUL) = Some t"
proof -
  from assms(2) obtain j where "k = Suc j" by (cases k) auto
  have "takeWhile (\<lambda>c. c \<noteq> NUL) (t @ NUL # replicate j NUL) = t"
    using assms(1) by (induction t) auto
  with \<open>k = Suc j\<close> show ?thesis
    by (simp add: cstr_def)
qed

lemma no_nul_take: "NUL \<notin> set (take n (takeWhile (\<lambda>c. c \<noteq> NUL) xs))"
  by (auto dest: in_set_takeD set_takeWhileD)

lemma process_result: "mem (process inp old) RESULT = old @ replicate (MAX_RESPONSE - length old) NUL"
  by (simp add: process_def INPUT_def RESULT_def)

section \<open>Facts about the RPC client\<close>

lemma deliver_grows:
  assumes "\<forall>n. realloc_ok e n"
  shows "deliver e cs \<lparr>data = Some (p @ [NUL]), size_r = length p\<rparr> =
           (\<lparr>data = Some (p @ concat cs @ [NUL]), size_r = length p + length (concat cs)\<rparr>, True)"
  using assms
proof (induction cs arbitrary: p)
  case Nil
  then show ?case by simp
next
  case (Cons c cs)
  have "WriteCallback e c 1 (length c) \<lparr>data = Some (p @ [NUL]), size_r = length p\<rparr> =
          (\<lparr>data = Some ((p @ c) @ [NUL]), size_r = length (p @ c)\<rparr>, length c)"
    using Cons.prems by (simp add: WriteCallback_def Let_def)
  with Cons.IH [OF Cons.prems, of "p @ c"] show ?case by simp
qed

lemma deliver_fresh:
  assumes "\<forall>n. realloc_ok e n"
  shows "deliver e cs \<lparr>data = None, size_r = 0\<rparr> =
           (if cs = [] then (\<lparr>data = None, size_r = 0\<rparr>, True)
            else (\<lparr>data = Some (concat cs @ [NUL]), size_r = length (concat cs)\<rparr>, True))"
proof (cases cs)
  case Nil
  then show ?thesis by simp
next
  case (Cons c cs')
  have "WriteCallback e c 1 (length c) \<lparr>data = None, size_r = 0\<rparr> =
          (\<lparr>data = Some (c @ [NUL]), size_r = length c\<rparr>, length c)"
    using assms by (simp add: WriteCallback_def Let_def)
  with deliver_grows [OF assms, of cs' c] Cons show ?thesis by simp
qed

lemma perform_ok:
  assumes "\<forall>n. realloc_ok e n" "transfer e req = (chunks, code)"
  shows "curl_easy_perform e req \<lparr>data = None, size_r = 0\<rparr> =
           (if chunks = [] then \<lparr>data = None, size_r = 0\<rparr>
            else \<lparr>data = Some (concat chunks @ [NUL]), size_r = length (concat chunks)\<rparr>, code)"
  using assms by (simp add: curl_easy_perform_def deliver_fresh)

lemma perform_no_body:
  assumes "transfer e req = ([], code)"
  shows "curl_easy_perform e req r = (r, code)"
  using assms by (simp add: curl_easy_perform_def)

lemma perform_failed:
  assumes "snd (transfer e req) \<noteq> CURLE_OK"
  shows "snd (curl_easy_perform e req r) \<noteq> CURLE_OK"
  using assms
  by (cases "transfer e req"; cases "deliver e (fst (transfer e req)) r")
     (auto simp: curl_easy_perform_def CURLE_OK_def CURLE_WRITE_ERROR_def)

lemma call_failed:
  assumes "curl_easy_init_ok e" "deref m args = Some a"
    and "snd (curl_easy_perform e (post e tool a) \<lparr>data = None, size_r = 0\<rparr>) \<noteq> CURLE_OK"
  shows "call_mcp_tool e tool args result m = Return (- 1) m [post e tool a]"
  using assms
  by (cases "curl_easy_perform e (post e tool a) \<lparr>data = None, size_r = 0\<rparr>")
     (simp add: call_mcp_tool_def Let_def)

lemma call_no_body:
  assumes "curl_easy_init_ok e" "deref m args = Some a"
    and "transfer e (post e tool a) = ([], CURLE_OK)"
  shows "call_mcp_tool e tool args result m = Return 0 m [post e tool a]"
  using assms by (simp add: call_mcp_tool_def Let_def perform_no_body)

lemma call_body:
  assumes "curl_easy_init_ok e" "deref m args = Some a" "length (m result) = MAX_RESPONSE"
    and "\<forall>n. realloc_ok e n" "transfer e (post e tool a) = (chunks, CURLE_OK)" "chunks \<noteq> []"
    and "body = take (MAX_RESPONSE - 1) (takeWhile (\<lambda>c. c \<noteq> NUL) (concat chunks))"
  shows "call_mcp_tool e tool args result m =
           Return 0 (m(result := body @ replicate (MAX_RESPONSE - length body) NUL)) [post e tool a]"
proof -
  have tw: "takeWhile (\<lambda>c. c \<noteq> NUL) (concat chunks @ [NUL]) = takeWhile (\<lambda>c. c \<noteq> NUL) (concat chunks)"
    by (induction "concat chunks" arbitrary: chunks) (simp_all add: takeWhile_tail)
  have "(strncpy (m result) (concat chunks @ [NUL]) (MAX_RESPONSE - 1))[MAX_RESPONSE - 1 := NUL] =
          body @ replicate (MAX_RESPONSE - length body) NUL"
    using strncpy_terminated [of "m result" "MAX_RESPONSE - 1" "concat chunks @ [NUL]"] assms(3,7)
    by (simp add: tw MAX_RESPONSE_def)
  then show ?thesis
    using assms(1-6) by (simp add: call_mcp_tool_def Let_def perform_ok)
qed

section \<open>Facts about one pass\<close>












section \<open>The output buffer of the RPC client\<close>

text \<open>
  C1, as amended. Let the handle be there, the arguments be a string and the output buffer
  have its 4096 bytes. When the transfer succeeds and the write callback was handed at least
  one piece of body (all of them accepted), \<open>call_mcp_tool\<close> returns 0 and the buffer
  holds the body up to its first NUL byte, cut to 4095 bytes and padded with NUL to the
  end, so that it reads back as that text. When the transfer succeeds without any piece
  of body, it returns 0 and the buffer is as it was. When the transfer fails (by its own
  code, or because the callback refused a piece), it returns -1 and the buffer is as it was.
  In each case exactly the one request was performed.
\<close>

theorem call_mcp_tool_output:
  assumes "curl_easy_init_ok e" and "deref m args = Some a" and "length (m result) = MAX_RESPONSE"
  shows "((\<forall>n. realloc_ok e n) \<and> transfer e (post e tool a) = (chunks, CURLE_OK) \<and> chunks \<noteq> [] \<and>
            body = take (MAX_RESPONSE - 1) (takeWhile (\<lambda>c. c \<noteq> NUL) (concat chunks)) \<longrightarrow>
            call_mcp_tool e tool args result m =
              Return 0 (m(result := body @ replicate (MAX_RESPONSE - length body) NUL)) [post e tool a] \<and>
            cstr (body @ replicate (MAX_RESPONSE - length body) NUL) = Some body) \<and>
         (transfer e (post e tool a) = ([], CURLE_OK) \<longrightarrow>
            call_mcp_tool e tool args result m = Return 0 m [post e tool a]) \<and>
         (snd (transfer e (post e tool a)) \<noteq> CURLE_OK \<or>
          snd (curl_easy_perform e (post e tool a) \<lparr>data = None, size_r = 0\<rparr>) \<noteq> CURLE_OK \<longrightarrow>
            call_mcp_tool e tool args result m = Return (- 1) m [post e tool a])"
proof (intro conjI impI)
  assume h: "(\<forall>n. realloc_ok e n) \<and> transfer e (post e tool a) = (chunks, CURLE_OK) \<and> chunks \<noteq> [] \<and>
            body = take (MAX_RESPONSE - 1) (takeWhile (\<lambda>c. c \<noteq> NUL) (concat chunks))"
  then show "call_mcp_tool e tool args result m =
              Return 0 (m(result := body @ replicate (MAX_RESPONSE - length body) NUL)) [post e tool a]"
    using call_body [OF assms] by blast
  from h have "NUL \<notin> set body" by (simp add: no_nul_take)
  moreover from h have "0 < MAX_RESPONSE - length body" by (simp add: MAX_RESPONSE_def)
  ultimately show "cstr (body @ replicate (MAX_RESPONSE - length body) NUL) = Some body"
    by (rule cstr_padded)
next
  assume "transfer e (post e tool a) = ([], CURLE_OK)"
  then show "call_mcp_tool e tool args result m = Return 0 m [post e tool a]"
    using call_no_body assms by blast
next
  assume "snd (transfer e (post e tool a)) \<noteq> CURLE_OK \<or>
          snd (curl_easy_perform e (post e tool a) \<lparr>data = None, size_r = 0\<rparr>) \<noteq> CURLE_OK"
  then have "snd (curl_easy_perform e (post e tool a) \<lparr>data = None, size_r = 0\<rparr>) \<noteq> CURLE_OK"
    using perform_failed by blast
  then show "call_mcp_tool e tool args result m = Return (- 1) m [post e tool a]"
    using call_failed assms by blast
qed

theorem call_mcp_tool_output_witness:
  "curl_easy_init_ok (server [replicate 5000 (CHR ''x'')]) \<and>
   deref (mem (process [] ''stale'')) (Lit ''{}'') = Some ''{}'' \<and>
   length (mem (process [] ''stale'') RESULT) = MAX_RESPONSE \<and>
   call_mcp_tool (server [replicate 5000 (CHR ''x'')]) ''get_status'' (Lit ''{}'') RESULT
       (mem (process [] ''stale'')) =
     Return 0 ((mem (process [] ''stale''))(RESULT := replicate 4095 (CHR ''x'') @ [NUL]))
       [post (server [replicate 5000 (CHR ''x'')]) ''get_status'' ''{}''] \<and>
   cstr (replicate 4095 (CHR ''x'') @ [NUL]) = Some (replicate 4095 (CHR ''x'')) \<and>
   call_mcp_tool (server []) ''get_status'' (Lit ''{}'') RESULT (mem (process [] ''stale'')) =
     Return 0 (mem (process [] ''stale'')) [post (server []) ''get_status'' ''{}''] \<and>
   call_mcp_tool unreachable ''get_status'' (Lit ''{}'') RESULT (mem (process [] ''stale'')) =
     Return (- 1) (mem (process [] ''stale'')) [post unreachable ''get_status'' ''{}'']"
proof -
  let ?m = "mem (process [] ''stale'')"
  have d: "deref ?m (Lit ''{}'') = Some ''{}''" by (simp add: cstr_def)
  have l: "length (?m RESULT) = MAX_RESPONSE" by (simp add: process_result MAX_RESPONSE_def)
  have t: "replicate 4095 (CHR ''x'') =
             take (MAX_RESPONSE - 1) (takeWhile (\<lambda>c. c \<noteq> NUL) (concat [replicate 5000 (CHR ''x'')]))"
    by (simp add: MAX_RESPONSE_def)
  have one: "replicate (MAX_RESPONSE - length (replicate 4095 (CHR ''x''))) NUL = [NUL]"
    by (simp add: MAX_RESPONSE_def)
  have a: "curl_easy_init_ok (server [replicate 5000 (CHR ''x'')])" by (simp add: server_def)
  have b: "curl_easy_init_ok (server [])" by (simp add: server_def)
  have c: "curl_easy_init_ok unreachable" by (simp add: unreachable_def)
  show ?thesis
    using call_mcp_tool_output [OF a d l, where chunks = "[replicate 5000 (CHR ''x'')]"
          and tool = "''get_status''" and body = "replicate 4095 (CHR ''x'')"]
      call_mcp_tool_output [OF b d l, where chunks = "[]" and tool = "''get_status''" and body = "[]"]
      call_mcp_tool_output [OF c d l, where chunks = "[]" and tool = "''get_status''" and body = "[]"]
      a d l t
    unfolding one
    by (simp add: server_def unreachable_def CURLE_OK_def CURLE_COULDNT_CONNECT_def)
qed

text \<open>
  C1 as stated fails where the server answers with an empty body: the transfer succeeds,
  the callback is never called, \<open>response.data\<close> stays NULL and the guard
  \<open>res == CURLE_OK && response.data\<close> skips the copy. The call returns 0 and the
  buffer still reads \<open>stale\<close>, not the (empty) response.
\<close>

theorem empty_body_leaves_stale_output:
  "transfer (server []) (post (server []) ''get_status'' ''{}'') = ([], CURLE_OK) \<and>
   call_mcp_tool (server []) ''get_status'' (Lit ''{}'') RESULT (mem (process [] ''stale'')) =
     Return 0 (mem (process [] ''stale'')) [post (server []) ''get_status'' ''{}''] \<and>
   cstr (mem (process [] ''stale'') RESULT) = Some ''stale''"
proof -
  have "cstr (mem (process [] ''stale'') RESULT) = Some ''stale''"
    unfolding process_result by (rule cstr_padded) (simp_all add: MAX_RESPONSE_def)
  moreover have "deref (mem (process [] ''stale'')) (Lit ''{}'') = Some ''{}''"
    by (simp add: cstr_def)
  ultimately show ?thesis
    by (simp add: call_no_body server_def)
qed

section \<open>One buffer as arguments and as output\<close>

text \<open>
  C9. The outcome of \<open>call_mcp_tool\<close> depends on its \<open>args\<close> pointer only through
  the string found there at entry: two pointers that read the same string give the same
  outcome. In particular the call that is handed the output buffer as its arguments
  (actions 1 and 4) does what the call with the arguments copied to a separate buffer
  \<open>a\<close> does: same return value, same request, same final memory (the copy apart).
\<close>

theorem args_read_before_result_written:
  "(deref m p = deref m q \<longrightarrow> call_mcp_tool e tool p r m = call_mcp_tool e tool q r m) \<and>
   (a \<noteq> r \<longrightarrow>
      call_mcp_tool e tool (Buf a) r (m(a := m r)) =
        (case call_mcp_tool e tool (Buf r) r m of
           CallUndefined \<Rightarrow> CallUndefined
         | Return rc m' reqs \<Rightarrow> Return rc (m'(a := m r)) reqs))"
proof (intro conjI impI)
  assume "deref m p = deref m q"
  then show "call_mcp_tool e tool p r m = call_mcp_tool e tool q r m"
    by (simp add: call_mcp_tool_def)
next
  assume ne: "a \<noteq> r"
  show "call_mcp_tool e tool (Buf a) r (m(a := m r)) =
        (case call_mcp_tool e tool (Buf r) r m of
           CallUndefined \<Rightarrow> CallUndefined
         | Return rc m' reqs \<Rightarrow> Return rc (m'(a := m r)) reqs)"
  proof (cases "cstr (m r)")
    case None
    then show ?thesis by (simp add: call_mcp_tool_def)
  next
    case (Some t)
    obtain response res where
      p: "curl_easy_perform e (post e tool t) \<lparr>data = None, size_r = 0\<rparr> = (response, res)"
      by (cases "curl_easy_perform e (post e tool t) \<lparr>data = None, size_r = 0\<rparr>")
    from ne have tw: "\<And>x. (m(a := m r))(r := x) = (m(r := x))(a := m r)"
      by (simp add: fun_upd_twist)
    from ne Some p show ?thesis
      by (auto simp: call_mcp_tool_def Let_def tw)
  qed
qed

theorem args_read_before_result_written_witness:
  \<open>deref (mem (process [] ''{"level":2}'')) (Buf RESULT) =
     deref (mem (process [] ''{"level":2}'')) (Lit ''{"level":2}'') \<and>
   call_mcp_tool (server [''done'']) ''set_debug'' (Buf RESULT) RESULT (mem (process [] ''{"level":2}'')) =
     call_mcp_tool (server [''done'']) ''set_debug'' (Lit ''{"level":2}'') RESULT
       (mem (process [] ''{"level":2}'')) \<and>
   (2 :: addr) \<noteq> RESULT \<and>
   call_mcp_tool (server [''done'']) ''set_debug'' (Buf 2) RESULT
       ((mem (process [] ''{"level":2}''))(2 := mem (process [] ''{"level":2}'') RESULT)) =
     (case call_mcp_tool (server [''done'']) ''set_debug'' (Buf RESULT) RESULT
             (mem (process [] ''{"level":2}'')) of
        CallUndefined \<Rightarrow> CallUndefined
      | Return rc m' reqs \<Rightarrow> Return rc (m'(2 := mem (process [] ''{"level":2}'') RESULT)) reqs) \<and>
   call_mcp_tool (server [''done'']) ''set_debug'' (Buf RESULT) RESULT (mem (process [] ''{"level":2}'')) =
     Return 0 ((mem (process [] ''{"level":2}''))(RESULT := ''done'' @ replicate 4092 NUL))
       [post (server [''done'']) ''set_debug'' ''{"level":2}'']\<close>
proof -
  let ?m = \<open>mem (process [] ''{"level":2}'')\<close>
  have r: \<open>cstr (?m RESULT) = Some ''{"level":2}''\<close>
    unfolding process_result by (rule cstr_padded) (simp_all add: MAX_RESPONSE_def)
  then have d: \<open>deref ?m (Buf RESULT) = deref ?m (Lit ''{"level":2}'')\<close>
    by (simp add: cstr_def)
  have ne: "(2 :: addr) \<noteq> RESULT" by (simp add: RESULT_def)
  have l: "length (?m RESULT) = MAX_RESPONSE" by (simp add: process_result MAX_RESPONSE_def)
  have run: \<open>call_mcp_tool (server [''done'']) ''set_debug'' (Buf RESULT) RESULT ?m =
     Return 0 (?m(RESULT := ''done'' @ replicate 4092 NUL))
       [post (server [''done'']) ''set_debug'' ''{"level":2}'']\<close>
    using call_body [where e = "server [''done'']" and m = ?m and args = "Buf RESULT"
        and result = RESULT and chunks = "[''done'']" and body = "''done''"
        and tool = "''set_debug''", OF _ _ l] r
    by (simp add: server_def MAX_RESPONSE_def)
  note w = args_read_before_result_written [where m = ?m and p = "Buf RESULT"
        and q = \<open>Lit ''{"level":2}''\<close> and e = "server [''done'']" and tool = "''set_debug''"
        and r = RESULT and a = 2]
  from w d have same: \<open>call_mcp_tool (server [''done'']) ''set_debug'' (Buf RESULT) RESULT ?m =
     call_mcp_tool (server [''done'']) ''set_debug'' (Lit ''{"level":2}'') RESULT ?m\<close>
    by blast
  from w ne have copy: \<open>call_mcp_tool (server [''done'']) ''set_debug'' (Buf 2) RESULT
       (?m(2 := ?m RESULT)) =
     (case call_mcp_tool (server [''done'']) ''set_debug'' (Buf RESULT) RESULT ?m of
        CallUndefined \<Rightarrow> CallUndefined
      | Return rc m' reqs \<Rightarrow> Return rc (m'(2 := ?m RESULT)) reqs)\<close>
    by blast
  from d same ne copy run show ?thesis by blast
qed

section \<open>Further facts about one pass and the loops\<close>

lemma rpc_failed:
  assumes "curl_easy_init_ok e" "deref (mem s) args = Some a"
    and "snd (curl_easy_perform e (post e tool a) \<lparr>data = None, size_r = 0\<rparr>) \<noteq> CURLE_OK"
  shows "rpc e s tool args label err =
           Continue (s\<lparr>sent := sent s @ [post e tool a],
                       stdout := stdout s @ (case err of None \<Rightarrow> [] | Some msg \<Rightarrow> msg)\<rparr>)"
  using call_failed [OF assms, of RESULT]
  by (simp add: rpc_def Let_def printf_def split: option.splits)

lemma rpc_body:
  assumes "curl_easy_init_ok e" "deref (mem s) args = Some a" "length (mem s RESULT) = MAX_RESPONSE"
    and "\<forall>n. realloc_ok e n" "transfer e (post e tool a) = (chunks, CURLE_OK)" "chunks \<noteq> []"
    and "body = take (MAX_RESPONSE - 1) (takeWhile (\<lambda>c. c \<noteq> NUL) (concat chunks))"
  shows "rpc e s tool args label err =
           Continue (s\<lparr>mem := (mem s)(RESULT := body @ replicate (MAX_RESPONSE - length body) NUL),
                       sent := sent s @ [post e tool a],
                       stdout := stdout s @ label @ body @ [NL]\<rparr>)"
proof -
  have "NUL \<notin> set body" by (simp add: assms(7) no_nul_take)
  moreover have "0 < MAX_RESPONSE - length body" by (simp add: assms(7) MAX_RESPONSE_def)
  ultimately have "cstr (body @ replicate (MAX_RESPONSE - length body) NUL) = Some body"
    by (rule cstr_padded)
  with call_body [OF assms] show ?thesis
    by (simp add: rpc_def Let_def printf_def)
qed

lemma strncpy_has_nul:
  assumes "length dst = MAX_RESPONSE"
  shows "NUL \<in> set ((strncpy dst src (MAX_RESPONSE - 1))[MAX_RESPONSE - 1 := NUL])"
proof -
  from assms have "length dst = Suc (MAX_RESPONSE - 1)" by (simp add: MAX_RESPONSE_def)
  from strncpy_terminated [OF this, of src] show ?thesis by simp
qed

lemma rpc_sends:
  assumes "curl_easy_init_ok e" "deref (mem s) args = Some a"
    and "length (mem s RESULT) = MAX_RESPONSE" "NUL \<in> set (mem s RESULT)"
  shows "\<exists>s'. rpc e s tool args label err = Continue s' \<and> sent s' = sent s @ [post e tool a] \<and>
              stdin s' = stdin s \<and> choice s' = choice s"
proof -
  obtain response res where
    p: "curl_easy_perform e (post e tool a) \<lparr>data = None, size_r = 0\<rparr> = (response, res)"
    by (cases "curl_easy_perform e (post e tool a) \<lparr>data = None, size_r = 0\<rparr>")
  show ?thesis
  proof (cases "res = CURLE_OK \<and> data response \<noteq> None")
    case True
    with assms p have "call_mcp_tool e tool args RESULT (mem s) =
        Return 0 ((mem s)(RESULT := (strncpy (mem s RESULT) (the (data response))
                                            (MAX_RESPONSE - 1))[MAX_RESPONSE - 1 := NUL]))
               [post e tool a]"
      by (simp add: call_mcp_tool_def Let_def)
    with strncpy_has_nul [OF assms(3), of "the (data response)"] show ?thesis
      by (simp add: rpc_def Let_def cstr_def)
  next
    case False
    with assms p have "call_mcp_tool e tool args RESULT (mem s) =
        Return (if res = CURLE_OK then 0 else - 1) (mem s) [post e tool a]"
      by (auto simp: call_mcp_tool_def Let_def)
    with assms(4) show ?thesis
      by (simp add: rpc_def Let_def cstr_def split: option.splits)
  qed
qed

lemma snprintf_length:
  "length buf = n \<Longrightarrow> 0 < n \<Longrightarrow> length (snprintf buf n t) = n"
  by (auto simp: snprintf_def poke_def)

lemma takeWhile_stops: "NUL \<notin> set t \<Longrightarrow> takeWhile (\<lambda>c. c \<noteq> NUL) (t @ NUL # ys) = t"
  by (induction t) auto

lemma snprintf_cstr:
  assumes "NUL \<notin> set t" "length t < n"
  shows "cstr (snprintf buf n t) = Some t" "NUL \<in> set (snprintf buf n t)"
proof -
  have "takeWhile (\<lambda>c. c \<noteq> NUL) (t @ NUL # drop (Suc (length t)) buf) = t"
    using assms(1) by (rule takeWhile_stops)
  with assms(2) show "cstr (snprintf buf n t) = Some t"
    by (simp add: snprintf_def poke_def cstr_def)
  from assms(2) show "NUL \<in> set (snprintf buf n t)"
    by (simp add: snprintf_def poke_def)
qed

lemma pass_get_status:
  "scanf_d (stdin s) = ScanInt 2 rest \<Longrightarrow>
   main_iter e s = rpc e (s\<lparr>stdout := stdout s @ menu, stdin := rest, choice := 2\<rparr>)
                     ''get_status'' (Lit ''{}'') ''Status: '' (Some ''Error getting status\<newline>'')"
  by (simp add: main_iter_def print_menu_def printf_def Let_def int_range store_defs)

lemma pass_get_agent_config:
  "scanf_d (stdin s) = ScanInt 5 rest \<Longrightarrow>
   main_iter e s = rpc e (s\<lparr>stdout := stdout s @ menu, stdin := rest, choice := 5\<rparr>)
                     ''get_agent_config'' (Lit ''{}'') ''Config: '' None"
  by (simp add: main_iter_def print_menu_def printf_def Let_def int_range store_defs)

lemma pass_db_status:
  "scanf_d (stdin s) = ScanInt 6 rest \<Longrightarrow>
   main_iter e s = rpc e (s\<lparr>stdout := stdout s @ menu, stdin := rest, choice := 6\<rparr>)
                     ''db_status'' (Lit ''{}'') ''Database: '' None"
  by (simp add: main_iter_def print_menu_def printf_def Let_def int_range store_defs)

lemma pass_get_settings:
  "scanf_d (stdin s) = ScanInt 7 rest \<Longrightarrow>
   main_iter e s = rpc e (s\<lparr>stdout := stdout s @ menu, stdin := rest, choice := 7\<rparr>)
                     ''get_settings'' (Lit ''{}'') ''Settings: '' None"
  by (simp add: main_iter_def print_menu_def printf_def Let_def int_range store_defs)

lemma pass_start_frontend:
  "scanf_d (stdin s) = ScanInt 3 rest \<Longrightarrow>
   main_iter e s = rpc e (s\<lparr>stdout := stdout s @ menu, stdin := rest, choice := 3\<rparr>)
                     ''start_frontend'' (Lit ''{}'') ''Frontend: '' (Some ''Error starting frontend\<newline>'')"
  by (simp add: main_iter_def print_menu_def printf_def Let_def int_range store_defs)

lemma pass_set_debug:
  assumes "scanf_d (stdin s) = ScanInt 4 rest" "scanf_d rest = ScanInt v rest'"
  shows \<open>main_iter e s =
           rpc e (s\<lparr>stdin := rest', choice := store_d v,
                    stdout := stdout s @ menu @ ''Debug level (0-3): '',
                    mem := (mem s)(RESULT := snprintf (mem s RESULT) MAX_RESPONSE
                                     (''{"level":'' @ fmt_d (store_d v) @ ''}''))\<rparr>)
             ''set_debug'' (Buf RESULT) ''Debug: '' None\<close>
proof -
  have "read_level (s\<lparr>stdin := rest, choice := 4, stdout := stdout s @ menu @ ''Debug level (0-3): ''\<rparr>) =
          s\<lparr>stdin := rest', choice := store_d v, stdout := stdout s @ menu @ ''Debug level (0-3): ''\<rparr>"
    using assms(2) by (simp add: read_level_def)
  with assms(1) show ?thesis
    by (simp add: main_iter_def print_menu_def printf_def Let_def int_range store_defs format_result_def)
qed

lemma fmt_d_4: "fmt_d 4 = ''4''"
  by (simp add: fmt_d_def digits.simps)

lemma pass_set_debug_stale:
  assumes "scanf_d (stdin s) = ScanInt 4 rest" "scanf_ret (scanf_d rest) \<noteq> 1"
  shows \<open>main_iter e s =
           rpc e (s\<lparr>stdin := scan_rest (scanf_d rest), choice := 4,
                    stdout := stdout s @ menu @ ''Debug level (0-3): '',
                    mem := (mem s)(RESULT := snprintf (mem s RESULT) MAX_RESPONSE ''{"level":4}'')\<rparr>)
             ''set_debug'' (Buf RESULT) ''Debug: '' None\<close>
proof -
  have "read_level (s\<lparr>stdin := rest, choice := 4, stdout := stdout s @ menu @ ''Debug level (0-3): ''\<rparr>) =
          s\<lparr>stdin := scan_rest (scanf_d rest), choice := 4,
                  stdout := stdout s @ menu @ ''Debug level (0-3): ''\<rparr>"
    using assms(2) by (cases "scanf_d rest") (simp_all add: read_level_def)
  with assms(1) show ?thesis
    by (simp add: main_iter_def print_menu_def printf_def Let_def int_range store_defs format_result_def fmt_d_4)
qed

lemma mock_set_debug_stale:
  assumes "scanf_d (stdin s) = ScanInt 4 rest" "scanf_ret (scanf_d rest) \<noteq> 1"
  shows "main_simple_iter s =
           Continue (s\<lparr>stdin := scan_rest (scanf_d rest), choice := 4,
                       stdout := stdout s @ menu @ ''Debug level (0-3): '' @ ''Debug: Level set to 4\<newline>''\<rparr>)"
proof -
  have "read_level (s\<lparr>stdin := rest, choice := 4, stdout := stdout s @ menu @ ''Debug level (0-3): ''\<rparr>) =
          s\<lparr>stdin := scan_rest (scanf_d rest), choice := 4,
                  stdout := stdout s @ menu @ ''Debug level (0-3): ''\<rparr>"
    using assms(2) by (cases "scanf_d rest") (simp_all add: read_level_def)
  with assms(1) show ?thesis
    by (simp add: main_simple_iter_def print_menu_def printf_def Let_def int_range store_defs fmt_d_4)
qed

lemma get_status_request:
  assumes "json_tokener_parse e ''{}'' = JObject []"
  shows \<open>post e ''get_status'' ''{}'' =
          \<lparr>url = ''http://localhost:8080/mcp'',
           postfields = ''{ "jsonrpc": "2.0", "method": "tools'' @ [BSL] @
                        ''/call", "id": 1, "params": { "name": "get_status", "arguments": { } } }'',
           httpheader = [''Content-Type: application/json'']\<rparr>\<close>
  using assms
  by (simp add: post_def envelope_def json_object_object_add_def json_escape_str_def
                json_escape_char_def fmt_d_def digits.simps)

lemma INPUT_RESULT [simp]: "INPUT \<noteq> RESULT" "RESULT \<noteq> INPUT"
  by (simp_all add: INPUT_def RESULT_def)

lemma fgets_line:
  assumes "NL \<notin> set line" "1 < n"
  shows "fgets buf n (line @ NL # rest) =
           (True, poke (take (n - 1) (line @ [NL]) @ [NUL]) buf,
            drop (length (take (n - 1) (line @ [NL]))) (line @ NL # rest))"
proof -
  have "takeWhile (\<lambda>c. c \<noteq> NL) (line @ NL # rest) = line"
    using assms(1) by (induction line) auto
  moreover have "take (n - 1) (line @ [NL]) \<noteq> []"
    using assms(2) by (cases line) auto
  ultimately show ?thesis
    unfolding fgets_def Let_def by (simp del: take_append take_eq_Nil)
qed

lemma takeWhile_line:
  assumes "NL \<notin> set p" "NUL \<notin> set p" "t = [] \<or> t = [NL]"
  shows "takeWhile (\<lambda>c. c \<noteq> NUL \<and> c \<noteq> NL) (p @ t @ NUL # ys) = p"
  using assms by (induction p) auto

lemma read_prompt_line:
  assumes "stdin s = c # line @ NL # rest" "NL \<notin> set line" "NUL \<notin> set line"
    and "p = take (MAX_INPUT - 1) line"
    and "got = take (MAX_INPUT - 1) (line @ [NL])"
    and "buf = (poke (got @ [NUL]) (mem s INPUT))[length p := NUL]"
  shows "read_prompt s = Some (s\<lparr>stdin := drop (length got) (line @ NL # rest),
                                  mem := (mem s)(INPUT := buf)\<rparr>)"
    and "cstr buf = Some p"
proof -
  define t where "t = (if length line < MAX_INPUT - 1 then [NL] else [])"
  have got: "got = p @ t" by (simp add: assms(4,5) t_def)
  have t: "t = [] \<or> t = [NL]" by (simp add: t_def)
  have pn: "NL \<notin> set p" "NUL \<notin> set p"
    using assms(2,3) by (auto simp: assms(4) dest: in_set_takeD)
  define ys where "ys = drop (length (got @ [NUL])) (mem s INPUT)"
  have pk: "poke (got @ [NUL]) (mem s INPUT) = p @ t @ NUL # ys"
    by (simp add: poke_def got ys_def)
  have k: "strcspn_nl (p @ t @ NUL # ys) = Some (length p)"
    using t by (auto simp: strcspn_nl_def takeWhile_line [OF pn t])
  have f: "fgets (mem s INPUT) MAX_INPUT (line @ NL # rest) =
            (True, p @ t @ NUL # ys, drop (length got) (line @ NL # rest))"
    using fgets_line [OF assms(2), of MAX_INPUT "mem s INPUT" rest] pk
    by (simp add: MAX_INPUT_def assms(5))
  have b: "buf = (p @ t @ NUL # ys)[length p := NUL]"
    by (simp add: assms(6) pk)
  show "read_prompt s = Some (s\<lparr>stdin := drop (length got) (line @ NL # rest),
                                  mem := (mem s)(INPUT := buf)\<rparr>)"
    by (simp add: read_prompt_def getchar_def assms(1) f k b)
  have "buf = p @ NUL # tl (t @ NUL # ys)"
    using t by (auto simp: b list_update_append)
  then show "cstr buf = Some p"
    using pn(2) by (simp add: cstr_def takeWhile_stops)
qed

lemma stdin_print_menu: "stdin (print_menu s) = stdin s"
  by (simp add: print_menu_def)

lemma pass_generate:
  assumes "scanf_d (stdin s) = ScanInt 1 (c # line @ NL # rest)" "NL \<notin> set line" "NUL \<notin> set line"
    and "p = take (MAX_INPUT - 1) line"
    and "got = take (MAX_INPUT - 1) (line @ [NL])"
    and "buf = (poke (got @ [NUL]) (mem s INPUT))[length p := NUL]"
  shows \<open>main_iter e s =
           rpc e (s\<lparr>stdout := stdout s @ menu @ ''Enter prompt: '',
                    stdin := drop (length got) (line @ NL # rest), choice := 1,
                    mem := (mem s)(INPUT := buf,
                             RESULT := snprintf (mem s RESULT) MAX_RESPONSE (''{"prompt":"'' @ p @ ''"}''))\<rparr>)
             ''generate'' (Buf RESULT) ''Result: '' (Some ''Error calling generate tool\<newline>'')\<close>
proof -
  let ?s1 = "printf ((print_menu s)\<lparr>stdin := c # line @ NL # rest, choice := 1\<rparr>) ''Enter prompt: ''"
  let ?s2 = "?s1\<lparr>stdin := drop (length got) (line @ NL # rest), mem := (mem ?s1)(INPUT := buf)\<rparr>"
  have st: "stdin ?s1 = c # line @ NL # rest" by simp
  have rp: "read_prompt ?s1 = Some ?s2"
    by (rule read_prompt_line(1) [OF st assms(2,3,4,5)]) (simp add: assms(6) print_menu_def)
  have cs: "cstr (mem ?s2 INPUT) = Some p"
    using read_prompt_line(2) [OF st assms(2,3,4,5), of buf] by (simp add: assms(6) print_menu_def)
  have one: "store_d 1 = 1" by (simp add: store_defs)
  have "main_iter e s =
          rpc e (format_result ?s2 (''{'' @ [DQ] @ ''prompt'' @ [DQ] @ '':'' @ [DQ] @ p @ [DQ] @ ''}''))
            ''generate'' (Buf RESULT) ''Result: '' (Some ''Error calling generate tool\<newline>'')"
    unfolding main_iter_def Let_def using assms(1) one
    by (simp only: stdin_printf stdin_print_menu scan.case scanf_ret.simps if_False if_True
          simp_thms rp cs option.case)
  also have \<open>format_result ?s2 (''{'' @ [DQ] @ ''prompt'' @ [DQ] @ '':'' @ [DQ] @ p @ [DQ] @ ''}'') =
          s\<lparr>stdout := stdout s @ menu @ ''Enter prompt: '',
                    stdin := drop (length got) (line @ NL # rest), choice := 1,
                    mem := (mem s)(INPUT := buf,
                             RESULT := snprintf (mem s RESULT) MAX_RESPONSE (''{"prompt":"'' @ p @ ''"}''))\<rparr>\<close>
    by (simp add: format_result_def print_menu_def printf_def)
  finally show ?thesis .
qed

lemma process_fields [simp]:
  "stdin (process inp old) = inp" "stdout (process inp old) = []" "sent (process inp old) = []"
  "choice (process inp old) = 0"
  "mem (process inp old) INPUT = replicate MAX_INPUT NUL"
  by (simp_all add: process_def)

lemma snprintf_fresh:
  assumes "length t < n"
  shows "snprintf (replicate n NUL) n t = t @ replicate (n - length t) NUL"
proof -
  from assms have "n - length t = Suc (n - Suc (length t))" by simp
  then have "replicate (n - length t) NUL = NUL # replicate (n - Suc (length t)) NUL"
    by simp
  with assms show ?thesis by (simp add: snprintf_def poke_def)
qed

lemma unreachable_fails:
  "snd (curl_easy_perform unreachable req r) \<noteq> CURLE_OK"
  by (rule perform_failed) (simp add: unreachable_def CURLE_OK_def CURLE_COULDNT_CONNECT_def)

lemma process_result_len: "length old \<le> MAX_RESPONSE \<Longrightarrow> length (mem (process inp old) RESULT) = MAX_RESPONSE"
  by (simp add: process_result)

lemma process_result_nul: "length old < MAX_RESPONSE \<Longrightarrow> NUL \<in> set (mem (process inp old) RESULT)"
  by (simp add: process_result)

lemma read_prompt_frame:
  "read_prompt s = Some s' \<Longrightarrow> stdout s' = stdout s \<and> sent s' = sent s \<and> choice s' = choice s"
  by (auto simp: read_prompt_def Let_def split: prod.splits option.splits)

lemma read_level_frame:
  "stdout (read_level s) = stdout s \<and> sent (read_level s) = sent s \<and> mem (read_level s) = mem s"
  by (simp add: read_level_def split: scan.splits)

lemma mock_pass_prints:
  assumes "main_simple_iter s = Continue s' \<or> main_simple_iter s = Exit c s'"
  shows "sent s' = sent s \<and>
         (\<exists>t. stdout s' = stdout s @ menu @ t \<and>
              t \<in> set (mock_texts (case cstr (mem s' INPUT) of None \<Rightarrow> [] | Some p \<Rightarrow> p) (choice s')))"
proof (cases "scanf_d (stdin s)")
  case (ScanInt n r)
  define v where "v = store_d n"
  let ?s = "(print_menu s)\<lparr>stdin := r, choice := v\<rparr>"
  consider "v = 1" | "v = 4" | "v \<noteq> 1 \<and> v \<noteq> 4" by blast
  then show ?thesis
  proof cases
    case 1
    with assms ScanInt obtain s2 p where
      rp: "read_prompt (printf ?s ''Enter prompt: '') = Some s2" and
      cs: "cstr (mem s2 INPUT) = Some p" and
      s': "s' = printf s2 (''Generated: Mock text for '' @ [SQ] @ p @ [SQ, NL])"
      by (auto simp: main_simple_iter_def Let_def print_menu_def v_def split: option.splits)
    from read_prompt_frame [OF rp] cs s' show ?thesis
      by (simp add: mock_texts_def print_menu_def)
  next
    case 2
    define s2 where "s2 = read_level (printf ?s ''Debug level (0-3): '')"
    from 2 assms ScanInt have
      s': "s' = printf s2 (''Debug: Level set to '' @ fmt_d (choice s2) @ [NL])"
      by (auto simp: main_simple_iter_def Let_def print_menu_def v_def s2_def)
    from read_level_frame [of "printf ?s ''Debug level (0-3): ''"] s' show ?thesis
      by (simp add: mock_texts_def print_menu_def s2_def)
  next
    case 3
    with assms ScanInt show ?thesis
      by (auto simp: main_simple_iter_def Let_def print_menu_def printf_def mock_texts_def v_def
               split: if_splits)
  qed
qed (use assms in \<open>auto simp: main_simple_iter_def print_menu_def printf_def Let_def mock_texts_def\<close>)

lemma mock_loop_sent:
  "main_simple_loop n s = Continue s' \<or> main_simple_loop n s = Exit c s' \<Longrightarrow> sent s' = sent s"
proof (induction n arbitrary: s)
  case 0
  then show ?case by simp
next
  case (Suc n)
  show ?case
  proof (cases "main_simple_iter s")
    case (Continue s1)
    with Suc.prems have "main_simple_loop n s1 = Continue s' \<or> main_simple_loop n s1 = Exit c s'"
      by simp
    from Suc.IH [OF this] mock_pass_prints [of s s1 c] Continue show ?thesis by simp
  next
    case (Exit c1 s1)
    with Suc.prems mock_pass_prints [of s s' c] show ?thesis by simp
  next
    case Undefined
    with Suc.prems show ?thesis by simp
  qed
qed

section \<open>The request of choice 2\<close>

text \<open>
  C3, as amended. With a handle, a tokener that reads \<open>{}\<close> as the empty object and a
  terminated 4096-byte \<open>result\<close> buffer, a pass that reads choice 2 ends with the loop
  running and has performed exactly one request: a POST to
  \<open>http://localhost:8080/mcp\<close> with the header \<open>Content-Type: application/json\<close>
  whose body is the envelope as json-c prints it,
  \<open>{ "jsonrpc": "2.0", "method": "tools\/call", "id": 1, "params": { "name": "get_status", "arguments": { } } }\<close>.
\<close>

theorem choice_2_posts_get_status:
  assumes "scanf_d (stdin s) = ScanInt 2 rest" and "curl_easy_init_ok e"
    and "json_tokener_parse e ''{}'' = JObject []"
    and "length (mem s RESULT) = MAX_RESPONSE" and "NUL \<in> set (mem s RESULT)"
  shows \<open>\<exists>s'. main_iter e s = Continue s' \<and>
           sent s' = sent s @
             [\<lparr>url = ''http://localhost:8080/mcp'',
               postfields = ''{ "jsonrpc": "2.0", "method": "tools'' @ [BSL] @
                            ''/call", "id": 1, "params": { "name": "get_status", "arguments": { } } }'',
               httpheader = [''Content-Type: application/json'']\<rparr>]\<close>
proof -
  let ?s = "s\<lparr>stdout := stdout s @ menu, stdin := rest, choice := 2\<rparr>"
  have "deref (mem ?s) (Lit ''{}'') = Some ''{}''" by (simp add: cstr_def)
  from rpc_sends [OF assms(2) this, of "''get_status''" "''Status: ''" "Some ''Error getting status\<newline>''"]
    assms(4,5)
  show ?thesis
    unfolding pass_get_status [OF assms(1)] get_status_request [OF assms(3)] by auto
qed

theorem choice_2_posts_get_status_witness:
  \<open>scanf_d (stdin (process ''2\<newline>'' [])) = ScanInt 2 [NL] \<and>
   curl_easy_init_ok (server [''ok'']) \<and>
   json_tokener_parse (server [''ok'']) ''{}'' = JObject [] \<and>
   length (mem (process ''2\<newline>'' []) RESULT) = MAX_RESPONSE \<and>
   NUL \<in> set (mem (process ''2\<newline>'' []) RESULT) \<and>
   (\<exists>s'. main_iter (server [''ok'']) (process ''2\<newline>'' []) = Continue s' \<and>
         sent s' =
           [\<lparr>url = ''http://localhost:8080/mcp'',
             postfields = ''{ "jsonrpc": "2.0", "method": "tools'' @ [BSL] @
                 ''/call", "id": 1, "params": { "name": "get_status", "arguments": { } } }'',
             httpheader = [''Content-Type: application/json'']\<rparr>])\<close>
proof -
  have a: "scanf_d (stdin (process ''2\<newline>'' [])) = ScanInt 2 [NL]" by (simp add: scan_defs)
  have b: "curl_easy_init_ok (server [''ok''])" by (simp add: server_def)
  have c: "json_tokener_parse (server [''ok'']) ''{}'' = JObject []" by (simp add: server_def)
  have d: "length (mem (process ''2\<newline>'' []) RESULT) = MAX_RESPONSE"
    by (simp add: process_result_len)
  have e: "NUL \<in> set (mem (process ''2\<newline>'' []) RESULT)"
    by (simp add: process_result_nul MAX_RESPONSE_def)
  show ?thesis
    using choice_2_posts_get_status [OF a b c d e] a b c d e by simp
qed

text \<open>
  C3 as stated fails: the body on the wire is the spaced text, with the slash escaped, and
  so differs from the compact text of the claim (as JSON the two are the same value).
\<close>

theorem choice_2_body_is_spaced:
  \<open>main_iter (server [''ok'']) (process ''2\<newline>'' []) =
     Continue ((process ''2\<newline>'' [])
       \<lparr>stdout := menu @ ''Status: ok\<newline>'', stdin := [NL], choice := 2,
        mem := (mem (process ''2\<newline>'' []))(RESULT := ''ok'' @ replicate 4094 NUL),
        sent := [\<lparr>url = ''http://localhost:8080/mcp'',
                  postfields = ''{ "jsonrpc": "2.0", "method": "tools'' @ [BSL] @
                      ''/call", "id": 1, "params": { "name": "get_status", "arguments": { } } }'',
                  httpheader = [''Content-Type: application/json'']\<rparr>]\<rparr>) \<and>
   ''{ "jsonrpc": "2.0", "method": "tools'' @ [BSL] @
       ''/call", "id": 1, "params": { "name": "get_status", "arguments": { } } }'' \<noteq>
   ''{"jsonrpc":"2.0","method":"tools/call","id":1,"params":{"name":"get_status","arguments":{}}}''\<close>
proof -
  let ?P = "process ''2\<newline>'' []"
  let ?S = "?P\<lparr>stdout := stdout ?P @ menu, stdin := [NL], choice := 2\<rparr>"
  have sc: "scanf_d (stdin ?P) = ScanInt 2 [NL]" by (simp add: scan_defs)
  have i: "curl_easy_init_ok (server [''ok''])" by (simp add: server_def)
  have d: "deref (mem ?S) (Lit ''{}'') = Some ''{}''" by (simp add: cstr_def)
  have l: "length (mem ?S RESULT) = MAX_RESPONSE" by (simp add: process_result_len)
  have ra: "\<forall>n. realloc_ok (server [''ok'']) n" by (simp add: server_def)
  have tr: "transfer (server [''ok'']) (post (server [''ok'']) ''get_status'' ''{}'') = ([''ok''], CURLE_OK)"
    by (simp add: server_def)
  have bd: "''ok'' = take (MAX_RESPONSE - 1) (takeWhile (\<lambda>c. c \<noteq> NUL) (concat [''ok'']))"
    by (simp add: MAX_RESPONSE_def)
  have pj: "json_tokener_parse (server [''ok'']) ''{}'' = JObject []" by (simp add: server_def)
  have run: "main_iter (server [''ok'']) ?P =
      Continue (?S\<lparr>mem := (mem ?S)(RESULT := ''ok'' @ replicate (MAX_RESPONSE - length ''ok'') NUL),
                  sent := sent ?S @ [post (server [''ok'']) ''get_status'' ''{}''],
                  stdout := stdout ?S @ ''Status: '' @ ''ok'' @ [NL]\<rparr>)"
    unfolding pass_get_status [OF sc]
    by (rule rpc_body [OF i d l ra tr _ bd]) simp
  show ?thesis
    unfolding run get_status_request [OF pj] by (simp add: MAX_RESPONSE_def)
qed

section \<open>The prompt of choice 1\<close>

text \<open>
  C5, as amended. Let a pass read choice 1, let the byte after the number (taken by
  \<open>getchar\<close>) be followed by a line without NUL bytes, and let there be a handle and a
  4096-byte \<open>result\<close> buffer. Then the pass ends with the loop running and has performed
  exactly one request, the one built for the tool \<open>generate\<close> from the arguments text
  \<open>{"prompt":"\<close>, the first 1023 bytes of the line (all of it when it is no longer), and
  \<open>"}\<close>, with nothing escaped. A line of fewer than 1023 bytes is consumed with its
  newline; of a longer one the bytes from the 1024th on stay on standard input.
\<close>

theorem choice_1_embeds_prompt:
  assumes "scanf_d (stdin s) = ScanInt 1 (c # line @ NL # rest)"
    and "NL \<notin> set line" and "NUL \<notin> set line"
    and "curl_easy_init_ok e" and "length (mem s RESULT) = MAX_RESPONSE"
  shows \<open>\<exists>s'. main_iter e s = Continue s' \<and>
           sent s' = sent s @ [post e ''generate'' (''{"prompt":"'' @ take (MAX_INPUT - 1) line @ ''"}'')] \<and>
           stdin s' = (if length line < MAX_INPUT - 1 then rest
                       else drop (MAX_INPUT - 1) line @ NL # rest)\<close>
proof -
  define p where "p = take (MAX_INPUT - 1) line"
  define got where "got = take (MAX_INPUT - 1) (line @ [NL])"
  define buf where "buf = (poke (got @ [NUL]) (mem s INPUT))[length p := NUL]"
  define arg where \<open>arg = ''{"prompt":"'' @ p @ ''"}''\<close>
  let ?s = "s\<lparr>stdout := stdout s @ menu @ ''Enter prompt: '',
                    stdin := drop (length got) (line @ NL # rest), choice := 1,
                    mem := (mem s)(INPUT := buf, RESULT := snprintf (mem s RESULT) MAX_RESPONSE arg)\<rparr>"
  have pn: "NUL \<notin> set arg"
    using assms(3) by (auto simp: arg_def p_def dest: in_set_takeD)
  have pl: "length arg < MAX_RESPONSE"
    by (simp add: arg_def p_def MAX_RESPONSE_def MAX_INPUT_def)
  have d: "deref (mem ?s) (Buf RESULT) = Some arg"
    by (simp add: snprintf_cstr [OF pn pl])
  have l: "length (mem ?s RESULT) = MAX_RESPONSE"
    using assms(5) by (simp add: snprintf_length MAX_RESPONSE_def)
  have n: "NUL \<in> set (mem ?s RESULT)"
    by (simp add: snprintf_cstr [OF pn pl])
  have rest: "drop (length got) (line @ NL # rest) =
                (if length line < MAX_INPUT - 1 then rest else drop (MAX_INPUT - 1) line @ NL # rest)"
    by (auto simp: got_def min_def)
  from rpc_sends [OF assms(4) d l n, of "''generate''" "''Result: ''" "Some ''Error calling generate tool\<newline>''"]
  obtain s' where
    s': "rpc e ?s ''generate'' (Buf RESULT) ''Result: '' (Some ''Error calling generate tool\<newline>'') = Continue s'"
        "sent s' = sent ?s @ [post e ''generate'' arg]" "stdin s' = stdin ?s"
    by blast
  have "main_iter e s = Continue s'"
    using pass_generate [OF assms(1,2,3) p_def got_def buf_def, of e] s'(1)
    by (simp add: arg_def)
  moreover have "sent s' = sent s @ [post e ''generate'' arg]" using s'(2) by simp
  moreover have "stdin s' = (if length line < MAX_INPUT - 1 then rest
                       else drop (MAX_INPUT - 1) line @ NL # rest)"
    using s'(3) rest by simp
  ultimately show ?thesis
    unfolding arg_def p_def by blast
qed

theorem choice_1_embeds_prompt_witness:
  \<open>scanf_d (stdin (process ''1\<newline>hello\<newline>'' [])) = ScanInt 1 (NL # ''hello'' @ NL # []) \<and>
   NL \<notin> set ''hello'' \<and> NUL \<notin> set ''hello'' \<and> curl_easy_init_ok (server [''Hi'']) \<and>
   length (mem (process ''1\<newline>hello\<newline>'' []) RESULT) = MAX_RESPONSE \<and>
   (\<exists>s'. main_iter (server [''Hi'']) (process ''1\<newline>hello\<newline>'' []) = Continue s' \<and>
         sent s' = [post (server [''Hi'']) ''generate'' ''{"prompt":"hello"}''] \<and>
         stdin s' = [])\<close>
proof -
  have a: "scanf_d (stdin (process ''1\<newline>hello\<newline>'' [])) = ScanInt 1 (NL # ''hello'' @ NL # [])"
    by (simp add: scan_defs)
  have b: "NL \<notin> set ''hello''" "NUL \<notin> set ''hello''" by simp_all
  have c: "curl_easy_init_ok (server [''Hi''])" by (simp add: server_def)
  have d: "length (mem (process ''1\<newline>hello\<newline>'' []) RESULT) = MAX_RESPONSE"
    by (simp add: process_result_len)
  show ?thesis
    using choice_1_embeds_prompt [OF a b c d] a b c d
    by (simp add: MAX_INPUT_def)
qed

text \<open>
  C5 as stated fails for a line of 1024 bytes: \<open>fgets\<close> stops after 1023, the arguments
  hold 1023 bytes of the line, and its last byte is still on standard input with the
  newline. (The endpoint is unreachable here, so \<open>result\<close> keeps the arguments text.)
\<close>

theorem long_prompt_is_cut:
  \<open>main_iter unreachable (process (''1\<newline>'' @ replicate 1024 (CHR ''a'') @ ''\<newline>'') []) =
     Continue ((process (''1\<newline>'' @ replicate 1024 (CHR ''a'') @ ''\<newline>'') [])
       \<lparr>stdout := menu @ ''Enter prompt: '' @ ''Error calling generate tool\<newline>'',
        stdin := ''a\<newline>'', choice := 1,
        mem := (mem (process (''1\<newline>'' @ replicate 1024 (CHR ''a'') @ ''\<newline>'') []))
                 (INPUT := replicate 1023 (CHR ''a'') @ [NUL],
                  RESULT := ''{"prompt":"'' @ replicate 1023 (CHR ''a'') @ ''"}'' @ replicate 3060 NUL),
        sent := [post unreachable ''generate'' (''{"prompt":"'' @ replicate 1023 (CHR ''a'') @ ''"}'')]\<rparr>) \<and>
   ''{"prompt":"'' @ replicate 1023 (CHR ''a'') @ ''"}'' \<noteq>
   ''{"prompt":"'' @ replicate 1024 (CHR ''a'') @ ''"}''\<close>
proof -
  let ?P = \<open>process (''1\<newline>'' @ replicate 1024 (CHR ''a'') @ ''\<newline>'') []\<close>
  let ?arg = \<open>''{"prompt":"'' @ replicate 1023 (CHR ''a'') @ ''"}''\<close>
  have sc: "scanf_d (stdin ?P) = ScanInt 1 (NL # replicate 1024 (CHR ''a'') @ NL # [])"
    by (simp add: scan_defs)
  have p: "replicate 1023 (CHR ''a'') = take (MAX_INPUT - 1) (replicate 1024 (CHR ''a''))"
    by (simp add: MAX_INPUT_def)
  have g: "replicate 1023 (CHR ''a'') = take (MAX_INPUT - 1) (replicate 1024 (CHR ''a'') @ [NL])"
    by (simp add: MAX_INPUT_def)
  have b: "replicate 1023 (CHR ''a'') @ [NUL] =
             (poke (replicate 1023 (CHR ''a'') @ [NUL]) (mem ?P INPUT))[length (replicate 1023 (CHR ''a'')) := NUL]"
    by (simp add: poke_def MAX_INPUT_def list_update_append)
  have r: "snprintf (mem ?P RESULT) MAX_RESPONSE ?arg = ?arg @ replicate 3060 NUL"
    unfolding process_result using snprintf_fresh [of ?arg MAX_RESPONSE]
    by (simp add: MAX_RESPONSE_def)
  have st: "drop (length (replicate 1023 (CHR ''a''))) (replicate 1024 (CHR ''a'') @ NL # []) = ''a\<newline>''"
    by simp
  let ?S = \<open>?P\<lparr>stdout := stdout ?P @ menu @ ''Enter prompt: '',
                 stdin := ''a\<newline>'', choice := 1,
                 mem := (mem ?P)(INPUT := replicate 1023 (CHR ''a'') @ [NUL],
                                 RESULT := ?arg @ replicate 3060 NUL)\<rparr>\<close>
  have pass: \<open>main_iter unreachable ?P =
                rpc unreachable ?S ''generate'' (Buf RESULT) ''Result: ''
                  (Some ''Error calling generate tool\<newline>'')\<close>
    using pass_generate [OF sc _ _ p g b, of unreachable] by (simp only: r st) simp
  have d: "deref (mem ?S) (Buf RESULT) = Some ?arg"
    using cstr_padded [of ?arg 3060] by simp
  have i: "curl_easy_init_ok unreachable" by (simp add: unreachable_def)
  have fail: \<open>rpc unreachable ?S ''generate'' (Buf RESULT) ''Result: ''
                  (Some ''Error calling generate tool\<newline>'') =
               Continue (?S\<lparr>sent := sent ?S @ [post unreachable ''generate'' ?arg],
                           stdout := stdout ?S @ ''Error calling generate tool\<newline>''\<rparr>)\<close>
    using rpc_failed [OF i d unreachable_fails, of "''generate''" "''Result: ''"
        "Some ''Error calling generate tool\<newline>''"] by simp
  have first: \<open>main_iter unreachable ?P =
     Continue (?P
       \<lparr>stdout := menu @ ''Enter prompt: '' @ ''Error calling generate tool\<newline>'',
        stdin := ''a\<newline>'', choice := 1,
        mem := (mem ?P)
                 (INPUT := replicate 1023 (CHR ''a'') @ [NUL],
                  RESULT := ?arg @ replicate 3060 NUL),
        sent := [post unreachable ''generate'' ?arg]\<rparr>)\<close>
    unfolding pass fail by simp
  have "length ?arg \<noteq> length (''{'' @ [DQ] @ ''prompt'' @ [DQ] @ '':'' @ [DQ] @ replicate 1024 (CHR ''a'') @ [DQ] @ ''}'')"
    by simp
  then have second: \<open>?arg \<noteq> ''{"prompt":"'' @ replicate 1024 (CHR ''a'') @ ''"}''\<close>
    by auto
  from first second show ?thesis by simp
qed

section \<open>A debug level that does not parse\<close>

text \<open>
  C10. In both variants action 4 ignores what \<open>scanf\<close> returns for the level. When that
  read stores nothing, \<open>choice\<close> still holds 4: the networked variant (with a handle and
  a 4096-byte \<open>result\<close> buffer) performs the request built for \<open>set_debug\<close> from the
  arguments \<open>{"level":4}\<close>, and the mock variant prints \<open>Debug: Level set to 4\<close>.
\<close>

theorem level_read_failure_sends_choice:
  assumes "scanf_d (stdin s) = ScanInt 4 rest" and "scanf_ret (scanf_d rest) \<noteq> 1"
    and "curl_easy_init_ok e" and "length (mem s RESULT) = MAX_RESPONSE"
  shows \<open>(\<exists>s'. main_iter e s = Continue s' \<and> choice s' = 4 \<and>
                sent s' = sent s @ [post e ''set_debug'' ''{"level":4}'']) \<and>
         main_simple_iter s =
           Continue (s\<lparr>stdin := scan_rest (scanf_d rest), choice := 4,
                       stdout := stdout s @ menu @ ''Debug level (0-3): '' @ ''Debug: Level set to 4\<newline>''\<rparr>)\<close>
proof -
  let ?s = \<open>s\<lparr>stdin := scan_rest (scanf_d rest), choice := 4,
                    stdout := stdout s @ menu @ ''Debug level (0-3): '',
                    mem := (mem s)(RESULT := snprintf (mem s RESULT) MAX_RESPONSE ''{"level":4}'')\<rparr>\<close>
  have d: \<open>deref (mem ?s) (Buf RESULT) = Some ''{"level":4}''\<close>
    by (simp add: snprintf_cstr MAX_RESPONSE_def)
  have l: "length (mem ?s RESULT) = MAX_RESPONSE"
    using assms(4) by (simp add: snprintf_length MAX_RESPONSE_def)
  have n: "NUL \<in> set (mem ?s RESULT)"
    by (simp add: snprintf_cstr MAX_RESPONSE_def)
  from rpc_sends [OF assms(3) d l n, of "''set_debug''" "''Debug: ''" None]
  have "\<exists>s'. main_iter e s = Continue s' \<and> choice s' = 4 \<and>
                sent s' = sent s @ [post e ''set_debug'' ''{\"level\":4}'']"
    unfolding pass_set_debug_stale [OF assms(1,2)] by auto
  with mock_set_debug_stale [OF assms(1,2)] show ?thesis by blast
qed

theorem level_read_failure_sends_choice_witness:
  \<open>scanf_d (stdin (process ''4\<newline>x\<newline>'' [])) = ScanInt 4 ''\<newline>x\<newline>'' \<and>
   scanf_ret (scanf_d ''\<newline>x\<newline>'') \<noteq> 1 \<and> curl_easy_init_ok unreachable \<and>
   length (mem (process ''4\<newline>x\<newline>'' []) RESULT) = MAX_RESPONSE \<and>
   (\<exists>s'. main_iter unreachable (process ''4\<newline>x\<newline>'' []) = Continue s' \<and> choice s' = 4 \<and>
         sent s' = [post unreachable ''set_debug'' ''{"level":4}'']) \<and>
   main_simple_iter (process ''4\<newline>x\<newline>'' []) =
     Continue ((process ''4\<newline>x\<newline>'' [])\<lparr>stdin := ''x\<newline>'', choice := 4,
        stdout := menu @ ''Debug level (0-3): '' @ ''Debug: Level set to 4\<newline>''\<rparr>)\<close>
proof -
  have a: "scanf_d (stdin (process ''4\<newline>x\<newline>'' [])) = ScanInt 4 ''\<newline>x\<newline>''"
    by (simp add: scan_defs)
  have r: "scanf_d ''\<newline>x\<newline>'' = ScanFail ''x\<newline>''" by (simp add: scan_defs)
  then have b: "scanf_ret (scanf_d ''\<newline>x\<newline>'') \<noteq> 1" by simp
  have c: "curl_easy_init_ok unreachable" by (simp add: unreachable_def)
  have d: "length (mem (process ''4\<newline>x\<newline>'' []) RESULT) = MAX_RESPONSE"
    by (simp add: process_result_len)
  show ?thesis
    using level_read_failure_sends_choice [OF a b c d] a b c d r by simp
qed

section \<open>An unreachable endpoint\<close>

text \<open>
  C2 does not hold of the code. With the endpoint unreachable, actions 5, 6 and 7 print
  nothing after the menu and action 4 nothing after its prompt for the level (their
  \<open>if\<close> has no \<open>else\<close>), while actions 2 and 3 print \<open>Error getting status\<close>
  and \<open>Error starting frontend\<close>, as action 1 prints its message. In every one of these
  passes one request was attempted and the loop goes on.
\<close>

theorem unreachable_endpoint_messages:
  \<open>main_iter unreachable (process ''5\<newline>'' []) =
     Continue ((process ''5\<newline>'' [])
       \<lparr>stdout := menu, stdin := [NL], choice := 5,
        sent := [post unreachable ''get_agent_config'' ''{}'']\<rparr>) \<and>
   main_iter unreachable (process ''6\<newline>'' []) =
     Continue ((process ''6\<newline>'' [])
       \<lparr>stdout := menu, stdin := [NL], choice := 6,
        sent := [post unreachable ''db_status'' ''{}'']\<rparr>) \<and>
   main_iter unreachable (process ''7\<newline>'' []) =
     Continue ((process ''7\<newline>'' [])
       \<lparr>stdout := menu, stdin := [NL], choice := 7,
        sent := [post unreachable ''get_settings'' ''{}'']\<rparr>) \<and>
   main_iter unreachable (process ''4\<newline>2\<newline>'' []) =
     Continue ((process ''4\<newline>2\<newline>'' [])
       \<lparr>stdout := menu @ ''Debug level (0-3): '', stdin := [NL], choice := 2,
        mem := (mem (process ''4\<newline>2\<newline>'' []))(RESULT := ''{"level":2}'' @ replicate 4085 NUL),
        sent := [post unreachable ''set_debug'' ''{"level":2}'']\<rparr>) \<and>
   main_iter unreachable (process ''2\<newline>'' []) =
     Continue ((process ''2\<newline>'' [])
       \<lparr>stdout := menu @ ''Error getting status\<newline>'', stdin := [NL], choice := 2,
        sent := [post unreachable ''get_status'' ''{}'']\<rparr>) \<and>
   main_iter unreachable (process ''3\<newline>'' []) =
     Continue ((process ''3\<newline>'' [])
       \<lparr>stdout := menu @ ''Error starting frontend\<newline>'', stdin := [NL], choice := 3,
        sent := [post unreachable ''start_frontend'' ''{}'']\<rparr>)\<close>
proof -
  have sc: "scanf_d (stdin (process ''5\<newline>'' [])) = ScanInt 5 [NL]"
    "scanf_d (stdin (process ''6\<newline>'' [])) = ScanInt 6 [NL]"
    "scanf_d (stdin (process ''7\<newline>'' [])) = ScanInt 7 [NL]"
    "scanf_d (stdin (process ''2\<newline>'' [])) = ScanInt 2 [NL]"
    "scanf_d (stdin (process ''3\<newline>'' [])) = ScanInt 3 [NL]"
    "scanf_d (stdin (process ''4\<newline>2\<newline>'' [])) = ScanInt 4 ''\<newline>2\<newline>''"
    "scanf_d ''\<newline>2\<newline>'' = ScanInt 2 [NL]"
    by (simp_all add: scan_defs)
  have i: "curl_easy_init_ok unreachable" by (simp add: unreachable_def)
  have d: "\<And>s. deref (mem s) (Lit ''{}'') = Some ''{}''" by (simp add: cstr_def)
  have two: "store_d 2 = 2" "fmt_d 2 = ''2''" by (simp_all add: store_defs fmt_d_def digits.simps)
  let ?P = "process ''4\<newline>2\<newline>'' []"
  let ?S = \<open>?P\<lparr>stdin := [NL], choice := 2, stdout := stdout ?P @ menu @ ''Debug level (0-3): '',
               mem := (mem ?P)(RESULT := ''{"level":2}'' @ replicate 4085 NUL)\<rparr>\<close>
  have r: \<open>snprintf (mem ?P RESULT) MAX_RESPONSE (''{"level":'' @ fmt_d 2 @ ''}'') =
            ''{"level":2}'' @ replicate 4085 NUL\<close>
    unfolding process_result two using snprintf_fresh [of \<open>''{"level":2}''\<close> MAX_RESPONSE]
    by (simp add: MAX_RESPONSE_def)
  have d4: \<open>deref (mem ?S) (Buf RESULT) = Some ''{"level":2}''\<close>
    using cstr_padded [of \<open>''{"level":2}''\<close> 4085] by simp
  have four: \<open>main_iter unreachable ?P =
     Continue (?P
       \<lparr>stdout := menu @ ''Debug level (0-3): '', stdin := [NL], choice := 2,
        mem := (mem ?P)(RESULT := ''{"level":2}'' @ replicate 4085 NUL),
        sent := [post unreachable ''set_debug'' ''{"level":2}'']\<rparr>)\<close>
    unfolding pass_set_debug [OF sc(6) sc(7)] two(1) r
    using rpc_failed [OF i d4 unreachable_fails, of "''set_debug''" "''Debug: ''" None]
    by simp
  show ?thesis
    unfolding four
    unfolding pass_get_agent_config [OF sc(1)] pass_db_status [OF sc(2)] pass_get_settings [OF sc(3)]
      pass_get_status [OF sc(4)] pass_start_frontend [OF sc(5)]
    by (simp add: rpc_failed [OF i d unreachable_fails])
qed

section \<open>The mock variant and the network\<close>

text \<open>
  C8. However many passes the mock loop makes from whatever state, the list of requests
  performed is the one it started with: the mock variant sends nothing. What a pass prints
  is the menu followed by one of the literal texts of the source, two of which are
  completed by the string held in \<open>input\<close> and by the value of \<open>choice\<close>.
\<close>

theorem mock_never_touches_network:
  "((main_simple_loop n s = Continue s' \<or> main_simple_loop n s = Exit c s') \<longrightarrow> sent s' = sent s) \<and>
   ((main_simple_iter s = Continue s' \<or> main_simple_iter s = Exit c s') \<longrightarrow>
      (\<exists>t. stdout s' = stdout s @ menu @ t \<and>
           t \<in> set (mock_texts (case cstr (mem s' INPUT) of None \<Rightarrow> [] | Some p \<Rightarrow> p) (choice s'))))"
  using mock_loop_sent [of n s s' c] mock_pass_prints [of s s' c] by blast

theorem mock_never_touches_network_witness:
  "main_simple_loop 2 (process ''5\<newline>8\<newline>'' []) =
     Exit 0 ((process ''5\<newline>8\<newline>'' [])
               \<lparr>stdout := menu @ mock_config @ menu @ ''Goodbye!\<newline>'', stdin := [NL], choice := 8\<rparr>) \<and>
   sent ((process ''5\<newline>8\<newline>'' [])
               \<lparr>stdout := menu @ mock_config @ menu @ ''Goodbye!\<newline>'', stdin := [NL], choice := 8\<rparr>) =
     sent (process ''5\<newline>8\<newline>'' []) \<and>
   main_simple_iter (process ''5\<newline>8\<newline>'' []) =
     Continue ((process ''5\<newline>8\<newline>'' [])
               \<lparr>stdout := menu @ mock_config, stdin := ''\<newline>8\<newline>'', choice := 5\<rparr>) \<and>
   (\<exists>t. stdout ((process ''5\<newline>8\<newline>'' [])
               \<lparr>stdout := menu @ mock_config, stdin := ''\<newline>8\<newline>'', choice := 5\<rparr>) =
          stdout (process ''5\<newline>8\<newline>'' []) @ menu @ t \<and>
        t \<in> set (mock_texts
                   (case cstr (mem ((process ''5\<newline>8\<newline>'' [])
                          \<lparr>stdout := menu @ mock_config, stdin := ''\<newline>8\<newline>'', choice := 5\<rparr>) INPUT) of
                      None \<Rightarrow> [] | Some p \<Rightarrow> p)
                   (choice ((process ''5\<newline>8\<newline>'' [])
                          \<lparr>stdout := menu @ mock_config, stdin := ''\<newline>8\<newline>'', choice := 5\<rparr>))))"
proof -
  let ?P = "process ''5\<newline>8\<newline>'' []"
  let ?S1 = "?P\<lparr>stdout := menu @ mock_config, stdin := ''\<newline>8\<newline>'', choice := 5\<rparr>"
  let ?S2 = "?P\<lparr>stdout := menu @ mock_config @ menu @ ''Goodbye!\<newline>'', stdin := [NL], choice := 8\<rparr>"
  have a: "scanf_d ''5\<newline>8\<newline>'' = ScanInt 5 ''\<newline>8\<newline>''" by (simp add: scan_defs)
  have b: "scanf_d ''\<newline>8\<newline>'' = ScanInt 8 [NL]" by (simp add: scan_defs)
  have p1: "main_simple_iter ?P = Continue ?S1"
    by (simp add: main_simple_iter_def print_menu_def printf_def a int_range store_defs)
  have p2: "main_simple_iter ?S1 = Exit 0 ?S2"
    by (simp add: main_simple_iter_def print_menu_def printf_def b int_range store_defs)
  have run: "main_simple_loop 2 ?P = Exit 0 ?S2"
    using p1 p2 by (simp add: numeral_2_eq_2)
  from mock_never_touches_network [of 2 ?P ?S2 0] run have s: "sent ?S2 = sent ?P" by blast
  from mock_never_touches_network [where s = ?P and s' = ?S1] p1
  have t: "\<exists>t. stdout ?S1 = stdout ?P @ menu @ t \<and>
        t \<in> set (mock_texts (case cstr (mem ?S1 INPUT) of None \<Rightarrow> [] | Some p \<Rightarrow> p) (choice ?S1))"
    by blast
  from run s p1 t show ?thesis by blast
qed

section \<open>Passes on buffers that hold strings\<close>

lemma input_ok_printf [simp]: "input_ok (printf s t) = input_ok s"
  and buffers_ok_printf [simp]: "buffers_ok (printf s t) = buffers_ok s"
  by (simp_all add: input_ok_def buffers_ok_def)

lemma input_ok_io [simp]:
  "input_ok (s\<lparr>stdin := i\<rparr>) = input_ok s" "input_ok (s\<lparr>choice := c\<rparr>) = input_ok s"
  "input_ok (s\<lparr>stdout := out\<rparr>) = input_ok s" "input_ok (s\<lparr>sent := q\<rparr>) = input_ok s"
  by (simp_all add: input_ok_def)

lemma buffers_ok_io [simp]:
  "buffers_ok (s\<lparr>stdin := i\<rparr>) = buffers_ok s" "buffers_ok (s\<lparr>choice := c\<rparr>) = buffers_ok s"
  "buffers_ok (s\<lparr>stdout := out\<rparr>) = buffers_ok s" "buffers_ok (s\<lparr>sent := q\<rparr>) = buffers_ok s"
  by (simp_all add: buffers_ok_def)








lemma format_result_ok:
  assumes "buffers_ok s" "NUL \<notin> set t" "length t < MAX_RESPONSE"
  shows "buffers_ok (format_result s t)" "deref (mem (format_result s t)) (Buf RESULT) = Some t"
  using assms snprintf_cstr [OF assms(2,3), of "mem s RESULT"]
  by (simp_all add: format_result_def buffers_ok_def input_ok_def snprintf_length MAX_RESPONSE_def)


lemma buffers_ok_read_level [simp]: "buffers_ok (read_level s) = buffers_ok s"
  and input_ok_read_level [simp]: "input_ok (read_level s) = input_ok s"
  by (simp_all add: read_level_def split: scan.splits)

lemma buffers_ok_print_menu [simp]: "buffers_ok (print_menu s) = buffers_ok s"
  and input_ok_print_menu [simp]: "input_ok (print_menu s) = input_ok s"
  by (simp_all add: print_menu_def)










section \<open>Entries that select no action\<close>




section \<open>Leaving the loop\<close>




end
